theory Spec2Isabelle
  imports Main
begin

section \<open>The texture batch generator (scripts/generate-textures.py)\<close>

text \<open>
  The script talks to four things outside itself: the process environment, the file
  system, the image service (with the download of a returned URL) and standard output.
  The model makes each of them explicit. What the outside world answers is a record of
  functions (\<open>env\<close>); what the script changes is a record of state (\<open>world\<close>) that every
  function takes and returns. Every outside call is also appended to a trace, so that
  "no network call was made" is a statement about that trace.

  An exception that nothing catches ends the process. The places where the script can
  raise outside its \<open>try\<close> block are modelled: making the directory, constructing the
  client, the existence check of an output path, and the \<open>print\<close> of the \<open>except\<close> handler,
  whose line carries the text of an exception from outside. The other lines are fixed by
  the script, and printing them is taken to succeed.
\<close>

subsection \<open>Values of the Python program\<close>

type_synonym bytes = "char list"

text \<open>A path is the list of its components, as \<open>pathlib\<close> keeps them.\<close>

type_synonym path = "string list"

text \<open>
  An instance of Python's \<open>Exception\<close>. The operations inside the \<open>try\<close> block (the
  request, the download, the decode, the write) raise exceptions of this class, and
  \<open>except Exception\<close> catches exactly this class. \<open>Exception c s\<close> is an exception of class
  \<open>c\<close> whose text \<open>str(e)\<close> is \<open>s\<close> and can be printed. \<open>Unprintable c y\<close> is an exception
  of class \<open>c\<close> whose text cannot be printed: formatting it into a line, or writing that
  line to standard output, raises \<open>y\<close>. An interrupt of the process from outside
  (\<open>KeyboardInterrupt\<close>) is not an \<open>Exception\<close> and is not part of the model.
\<close>

datatype exc = Exception (exc_class: string) (exc_str: string) | Unprintable string exc

text \<open>An attribute that \<open>hasattr\<close> may miss, that may be \<open>None\<close>, or that holds a string.\<close>

datatype attr = NoAttr | NoneVal | StrVal string

record image =
  url :: "string option"
  b64_json :: attr

record response =
  data :: "image list option"

record request =
  req_model :: string
  req_prompt :: string
  req_n :: nat
  req_size :: string
  req_quality :: string

text \<open>
  What the file system holds at a path: a file, a directory, or an entry that cannot be
  examined, for which \<open>stat\<close> raises an error other than "not found" (permission denied
  on a parent directory, say).
\<close>

datatype node = File bytes | Dir | Inaccessible exc

datatype call =
    Mkdir path
  | NewClient string
  | Exists path
  | ImagesGenerate request
  | UrlRetrieve string path
  | B64Decode string
  | FileWrite path bytes

subsection \<open>The outside world\<close>

text \<open>
  \<open>urlretrieve\<close> and \<open>file_write\<close> answer, on failure, with the exception and with what
  is left at the target path (\<open>None\<close>: nothing was created). \<open>client_error\<close> is the
  exception, if any, that the constructor \<open>OpenAI(api_key=...)\<close> raises.
\<close>

record env =
  openai_installed :: bool
  environ :: "string \<Rightarrow> string option"
  script_root :: path
  mkdir_error :: "exc option"
  client_error :: "exc option"
  images_generate :: "request \<Rightarrow> exc + response"
  urlretrieve :: "string \<Rightarrow> path \<Rightarrow> (exc \<times> bytes option) + bytes"
  b64decode :: "string \<Rightarrow> exc + bytes"
  file_write :: "path \<Rightarrow> bytes \<Rightarrow> (exc \<times> bytes option) option"

record world =
  fs :: "path \<Rightarrow> node option"
  stdout :: "string list"
  calls :: "call list"

datatype status = Returned | SystemExit nat | Uncaught exc

subsection \<open>Helpers of the Python runtime\<close>

definition py_print :: "string \<Rightarrow> world \<Rightarrow> world" where
  "py_print s w = w\<lparr>stdout := stdout w @ [s]\<rparr>"

definition record_call :: "call \<Rightarrow> world \<Rightarrow> world" where
  "record_call c w = w\<lparr>calls := calls w @ [c]\<rparr>"

text \<open>Truth value of an optional string: \<open>None\<close> and the empty string are false.\<close>

definition truthy :: "string option \<Rightarrow> bool" where
  "truthy v = (case v of None \<Rightarrow> False | Some s \<Rightarrow> s \<noteq> [])"

definition str_val :: "string option \<Rightarrow> string" where
  "str_val v = (case v of None \<Rightarrow> [] | Some s \<Rightarrow> s)"

text \<open>\<open>str(n)\<close> of a non-negative integer.\<close>

fun str_nat :: "nat \<Rightarrow> string" where
  "str_nat n =
     (if n < 10 then [''0123456789'' ! n]
      else str_nat (n div 10) @ [''0123456789'' ! (n mod 10)])"

fun join_path :: "path \<Rightarrow> string" where
  "join_path [] = []"
| "join_path [c] = c"
| "join_path (c # cs) = c @ ''/'' @ join_path cs"

text \<open>\<open>str(p)\<close> of a path: the current directory is a dot, a root anchor is not repeated.\<close>

definition path_str :: "path \<Rightarrow> string" where
  "path_str p =
     (case p of
        [] \<Rightarrow> ''.''
      | c # cs \<Rightarrow> if c = ''/'' then ''/'' @ join_path cs else join_path (c # cs))"

text \<open>
  \<open>Path.exists()\<close>: false when nothing is there, true for a file or a directory; an
  error of \<open>stat\<close> other than "not found" is raised to the caller.
\<close>

definition path_exists :: "path \<Rightarrow> world \<Rightarrow> exc + bool" where
  "path_exists p w =
     (case fs w p of
        None \<Rightarrow> Inr False
      | Some (File b) \<Rightarrow> Inr True
      | Some Dir \<Rightarrow> Inr True
      | Some (Inaccessible x) \<Rightarrow> Inl x)"

definition write_node :: "path \<Rightarrow> bytes \<Rightarrow> world \<Rightarrow> world" where
  "write_node p b w = w\<lparr>fs := (fs w)(p \<mapsto> File b)\<rparr>"

text \<open>What a failed write leaves behind at the path.\<close>

definition leave :: "path \<Rightarrow> bytes option \<Rightarrow> world \<Rightarrow> world" where
  "leave p left w = (case left of None \<Rightarrow> w | Some b \<Rightarrow> write_node p b w)"

text \<open>
  \<open>Path.mkdir(parents=True, exist_ok=True)\<close>: any error of the operating system is
  raised to the caller; otherwise the directory and its missing parents come to exist,
  and nothing that is already there is touched.
\<close>

definition make_dirs :: "path \<Rightarrow> (path \<Rightarrow> node option) \<Rightarrow> (path \<Rightarrow> node option)" where
  "make_dirs p f = (\<lambda>q. if f q = None \<and> q \<noteq> [] \<and> q = take (length q) p then Some Dir else f q)"

definition mkdir :: "env \<Rightarrow> path \<Rightarrow> world \<Rightarrow> exc option \<times> world" where
  "mkdir e p w =
     (let w1 = record_call (Mkdir p) w in
      case mkdir_error e of
        Some x \<Rightarrow> (Some x, w1)
      | None \<Rightarrow> (None, w1\<lparr>fs := make_dirs p (fs w1)\<rparr>))"

subsection \<open>Module constants\<close>

definition OUTPUT_DIR :: "env \<Rightarrow> path" where
  "OUTPUT_DIR e = script_root e @ [''public'', ''textures'', ''zones'']"

definition TEXTURES :: "(string \<times> string) list" where
  "TEXTURES =
    [(''industrial_floor'',
      ''Seamless tileable industrial metal floor texture, dark steel plates with rust stains '' @
      ''and oil marks, rivets and grating, worn metallic surface, top-down view, game asset, '' @
      ''dark color scheme, 512x512 pixels''),
     (''industrial_wall'',
      ''Seamless tileable industrial wall texture, corrugated metal sheets with pipes and '' @
      ''conduits running across, rust patches and grime, concrete sections, dark atmosphere, '' @
      ''game asset, 512x512 pixels''),
     (''ritual_floor'',
      ''Seamless tileable dark stone floor texture with glowing purple mystical runes, '' @
      ''ancient carved arcane symbols, candlewax stains, occult dungeon floor, dark purple '' @
      ''and black color scheme, top-down view, game asset, 512x512 pixels''),
     (''ritual_wall'',
      ''Seamless tileable dark dungeon wall texture with carved arcane symbols, glowing '' @
      ''purple crystalline veins in dark stone, mystical energy cracks, ancient masonry, '' @
      ''game asset, 512x512 pixels''),
     (''organic_floor'',
      ''Seamless tileable dirty organic floor texture, mud and debris, scattered small bones '' @
      ''and organic matter, nest materials like straw and fur, grimy dungeon floor, earthy '' @
      ''brown and dark colors, top-down view, game asset, 512x512 pixels''),
     (''organic_wall'',
      ''Seamless tileable organic cave wall texture, earthy browns and dark colors, roots '' @
      ''and vines growing through cracks, moisture stains, natural rock formation with '' @
      ''organic growth, game asset, 512x512 pixels''),
     (''neutral_floor'',
      ''Seamless tileable clean stone floor texture, polished grey flagstones with minimal '' @
      ''wear, orderly geometric pattern, safe room floor appearance, neutral grey tones, '' @
      ''top-down view, game asset, 512x512 pixels''),
     (''neutral_wall'',
      ''Seamless tileable clean stone wall texture, well-maintained grey masonry blocks, '' @
      ''minimal decoration, sturdy dungeon wall, neutral grey and brown tones, game asset, '' @
      ''512x512 pixels'')]"

subsection \<open>generate_texture\<close>

definition output_path :: "env \<Rightarrow> string \<Rightarrow> path" where
  "output_path e name = OUTPUT_DIR e @ [name @ ''.png'']"

definition gen_request :: "string \<Rightarrow> request" where
  "gen_request prompt =
     \<lparr>req_model = ''gpt-image-1'', req_prompt = prompt, req_n = 1,
      req_size = ''1024x1024'', req_quality = ''medium''\<rparr>"

text \<open>
  The body of the \<open>try\<close> block. \<open>Inl x\<close> is the exception \<open>x\<close> leaving the block,
  \<open>Inr r\<close> the value it returns.
\<close>

definition try_body :: "env \<Rightarrow> string \<Rightarrow> string \<Rightarrow> world \<Rightarrow> (exc + bool) \<times> world" where
  "try_body e name prompt w =
     (let p = output_path e name;
          w1 = record_call (ImagesGenerate (gen_request prompt)) w
      in case images_generate e (gen_request prompt) of
           Inl x \<Rightarrow> (Inl x, w1)
         | Inr resp \<Rightarrow>
            (case data resp of
               None \<Rightarrow>
                 (Inl (Exception ''TypeError'' (CHR 0x27 # ''NoneType'' @ CHR 0x27 # '' object is not subscriptable'')), w1)
             | Some [] \<Rightarrow> (Inl (Exception ''IndexError'' ''list index out of range''), w1)
             | Some (img # rest) \<Rightarrow>
                 (let image_url = url img in
                  if truthy image_url then
                    (let w2 = record_call (UrlRetrieve (str_val image_url) p) w1 in
                     case urlretrieve e (str_val image_url) p of
                       Inl (x, left) \<Rightarrow> (Inl x, leave p left w2)
                     | Inr b \<Rightarrow>
                         (Inr True, py_print (''  [OK] Saved '' @ name @ ''.png'') (write_node p b w2)))
                  else
                    (case b64_json img of
                       StrVal s \<Rightarrow>
                         if s \<noteq> [] then
                           (let w2 = record_call (B64Decode s) w1 in
                            case b64decode e s of
                              Inl x \<Rightarrow> (Inl x, w2)
                            | Inr image_data \<Rightarrow>
                                (let w3 = record_call (FileWrite p image_data) w2 in
                                 case file_write e p image_data of
                                   Some (x, left) \<Rightarrow> (Inl x, leave p left w3)
                                 | None \<Rightarrow>
                                     (Inr True,
                                      py_print (''  [OK] Saved '' @ name @ ''.png'')
                                        (write_node p image_data w3))))
                         else (Inr False, py_print ''  [ERR] No image data in response'' w1)
                     | NoneVal \<Rightarrow> (Inr False, py_print ''  [ERR] No image data in response'' w1)
                     | NoAttr \<Rightarrow> (Inr False, py_print ''  [ERR] No image data in response'' w1)))))"

text \<open>
  The existence check comes before the \<open>try\<close> block, so what it raises leaves the function.
  The handler prints the failure line with the text of the exception; when that text
  cannot be printed, the \<open>print\<close> raises inside the handler and that exception leaves the
  function too. \<open>Inl x\<close> is the exception \<open>x\<close> leaving \<open>generate_texture\<close>, \<open>Inr r\<close> the
  boolean it returns.
\<close>

definition generate_texture :: "env \<Rightarrow> string \<Rightarrow> string \<Rightarrow> world \<Rightarrow> (exc + bool) \<times> world" where
  "generate_texture e name prompt w =
     (let p = output_path e name;
          w0 = record_call (Exists p) w
      in case path_exists p w0 of
           Inl x \<Rightarrow> (Inl x, w0)
         | Inr found \<Rightarrow>
             if found then
               (Inr True, py_print (''  [SKIP] '' @ name @ ''.png already exists'') w0)
             else
               (case try_body e name prompt (py_print (''  [GEN] '' @ name @ ''...'') w0) of
                  (Inr r, w') \<Rightarrow> (Inr r, w')
                | (Inl x, w') \<Rightarrow>
                    (case x of
                       Exception c s \<Rightarrow>
                         (Inr False,
                          py_print (''  [ERR] Failed to generate '' @ name @ '': '' @ s) w')
                     | Unprintable c y \<Rightarrow> (Inl y, w'))))"

subsection \<open>main and the script\<close>

text \<open>
  The \<open>for\<close> loop of \<open>main\<close>, with the counter it keeps. \<open>TEXTURES\<close> is a dictionary
  literal, iterated in the order it is written. An exception that leaves
  \<open>generate_texture\<close> leaves the loop.
\<close>

fun run_specs :: "env \<Rightarrow> (string \<times> string) list \<Rightarrow> nat \<Rightarrow> world \<Rightarrow> (exc + nat) \<times> world" where
  "run_specs e [] success_count w = (Inr success_count, w)"
| "run_specs e ((name, prompt) # rest) success_count w =
     (case generate_texture e name prompt w of
        (Inl x, w') \<Rightarrow> (Inl x, w')
      | (Inr ok, w') \<Rightarrow> run_specs e rest (if ok then success_count + 1 else success_count) w')"

definition summary_line :: "nat \<Rightarrow> string" where
  "summary_line success_count =
     ''Complete! Generated '' @ str_nat success_count @ ''/'' @ str_nat (length TEXTURES) @ '' textures''"

definition retry_line :: string where
  "retry_line = ''Some textures failed. Re-run the script to retry failed ones.''"

definition key_error_lines :: "string list" where
  "key_error_lines =
     [''Error: OPENAI_API_KEY environment variable not set'',
      ''Run: export OPENAI_API_KEY='' @ CHR 0x27 # ''your-key-here'' @ [CHR 0x27]]"

definition banner :: "env \<Rightarrow> string list" where
  "banner e =
     [''Generating zone textures to: '' @ path_str (OUTPUT_DIR e),
      ''Total textures to generate: '' @ str_nat (length TEXTURES),
      '''']"

text \<open>
  \<open>main\<close>. The two or three consecutive \<open>print\<close> calls are one \<open>print_all\<close>. Neither
  \<open>mkdir\<close> nor the construction of the client nor the loop is inside a \<open>try\<close>: an exception
  from any of them ends the process.
\<close>

definition print_all :: "string list \<Rightarrow> world \<Rightarrow> world" where
  "print_all ls w = fold py_print ls w"

definition main :: "env \<Rightarrow> world \<Rightarrow> status \<times> world" where
  "main e w =
     (let api_key = environ e ''OPENAI_API_KEY'' in
      if \<not> truthy api_key then (SystemExit 1, print_all key_error_lines w)
      else
        (case mkdir e (OUTPUT_DIR e) w of
           (Some x, w1) \<Rightarrow> (Uncaught x, w1)
         | (None, w1) \<Rightarrow>
             (let w2 = record_call (NewClient (str_val api_key)) (print_all (banner e) w1) in
              case client_error e of
                Some x \<Rightarrow> (Uncaught x, w2)
              | None \<Rightarrow>
                  (case run_specs e TEXTURES 0 w2 of
                     (Inl x, w3) \<Rightarrow> (Uncaught x, w3)
                   | (Inr success_count, w3) \<Rightarrow>
                       (let w4 = py_print (summary_line success_count) (py_print '''' w3) in
                        if success_count < length TEXTURES
                        then (Returned, py_print retry_line w4)
                        else (Returned, w4))))))"

text \<open>
  The module run as a script: the import guard, then \<open>main\<close>. The result is the exit
  status of the process: 0 after a normal return, the argument of \<open>exit\<close>, 1 after an
  exception nobody caught.
\<close>

definition import_error_line :: string where
  "import_error_line = ''Error: openai package not installed. Run: pip install openai''"

definition exit_status :: "status \<Rightarrow> nat" where
  "exit_status s = (case s of Returned \<Rightarrow> 0 | SystemExit n \<Rightarrow> n | Uncaught x \<Rightarrow> 1)"

definition script :: "env \<Rightarrow> world \<Rightarrow> nat \<times> world" where
  "script e w =
     (if \<not> openai_installed e then (1, py_print import_error_line w)
      else (case main e w of (s, w') \<Rightarrow> (exit_status s, w')))"

subsection \<open>Observations on a run\<close>

text \<open>What a run from \<open>w\<close> to \<open>w'\<close> printed, and the outside calls it made.\<close>

definition new_stdout :: "world \<Rightarrow> world \<Rightarrow> string list" where
  "new_stdout w w' = drop (length (stdout w)) (stdout w')"

definition new_calls :: "world \<Rightarrow> world \<Rightarrow> call list" where
  "new_calls w w' = drop (length (calls w)) (calls w')"

text \<open>
  The script keeps no record of a spec's outcome other than the line it prints and the
  boolean it returns. The outcome a printed line reports is read off its tag.
\<close>

datatype outcome = AlreadyPresent | Saved | Failed

definition classify :: "string \<Rightarrow> outcome option" where
  "classify l =
     (if take 9 l = ''  [SKIP] '' then Some AlreadyPresent
      else if take 7 l = ''  [OK] '' then Some Saved
      else if take 8 l = ''  [ERR] '' then Some Failed
      else None)"

text \<open>The outcomes that a list of printed lines reports, in order.\<close>

fun outcomes :: "string list \<Rightarrow> outcome list" where
  "outcomes [] = []"
| "outcomes (l # ls) = (case classify l of None \<Rightarrow> outcomes ls | Some c \<Rightarrow> c # outcomes ls)"

definition is_exists :: "call \<Rightarrow> bool" where
  "is_exists c = (case c of Exists p \<Rightarrow> True | _ \<Rightarrow> False)"

definition skip_line :: "string \<Rightarrow> string" where
  "skip_line name = ''  [SKIP] '' @ name @ ''.png already exists''"

definition gen_line :: "string \<Rightarrow> string" where
  "gen_line name = ''  [GEN] '' @ name @ ''...''"

definition ok_line :: "string \<Rightarrow> string" where
  "ok_line name = ''  [OK] Saved '' @ name @ ''.png''"

definition failed_line :: "string \<Rightarrow> exc \<Rightarrow> string" where
  "failed_line name x = ''  [ERR] Failed to generate '' @ name @ '': '' @ exc_str x"

definition no_image_line :: string where
  "no_image_line = ''  [ERR] No image data in response''"

subsection \<open>Auxiliary notions for the proofs\<close>

text \<open>
  Processing a spec reads the world in one place only, the existence check, and
  otherwise appends to it. So a run is the starting world with a difference grafted on,
  and the difference can be computed from the empty world.
\<close>

definition blank :: world where
  "blank = \<lparr>fs = (\<lambda>_. None), stdout = [], calls = []\<rparr>"

definition graft :: "world \<Rightarrow> world \<Rightarrow> world" where
  "graft w d = \<lparr>fs = fs w ++ fs d, stdout = stdout w @ stdout d, calls = calls w @ calls d\<rparr>"

text \<open>What processing one spec from the world \<open>w\<close> returns or raises, and what it adds.\<close>

definition spec_res :: "env \<Rightarrow> world \<Rightarrow> string \<times> string \<Rightarrow> exc + bool" where
  "spec_res e w s = (case s of (name, prompt) \<Rightarrow> fst (generate_texture e name prompt w))"

definition spec_ok :: "env \<Rightarrow> world \<Rightarrow> string \<times> string \<Rightarrow> bool" where
  "spec_ok e w s = (spec_res e w s = Inr True)"

definition spec_delta :: "env \<Rightarrow> world \<Rightarrow> string \<times> string \<Rightarrow> world" where
  "spec_delta e w s =
     (case s of (name, prompt) \<Rightarrow>
        (case path_exists (output_path e name) w of
           Inl x \<Rightarrow> record_call (Exists (output_path e name)) blank
         | Inr found \<Rightarrow>
             if found
             then py_print (skip_line name) (record_call (Exists (output_path e name)) blank)
             else snd (generate_texture e name prompt blank)))"

definition batch_delta :: "env \<Rightarrow> world \<Rightarrow> (string \<times> string) list \<Rightarrow> world" where
  "batch_delta e w specs = foldr graft (map (spec_delta e w) specs) blank"

text \<open>
  The specs that the loop gets to, up to and including the first whose processing
  raises, and the result of the loop, both read off the world at the start.
\<close>

fun processed :: "env \<Rightarrow> world \<Rightarrow> (string \<times> string) list \<Rightarrow> (string \<times> string) list" where
  "processed e w [] = []"
| "processed e w (s # rest) = s # (if isl (spec_res e w s) then [] else processed e w rest)"

fun batch_res :: "env \<Rightarrow> world \<Rightarrow> (string \<times> string) list \<Rightarrow> nat \<Rightarrow> exc + nat" where
  "batch_res e w [] c = Inr c"
| "batch_res e w (s # rest) c =
     (case spec_res e w s of
        Inl x \<Rightarrow> Inl x
      | Inr ok \<Rightarrow> batch_res e w rest (if ok then c + 1 else c))"

definition batch_ok_count :: "env \<Rightarrow> world \<Rightarrow> nat" where
  "batch_ok_count e w = length (filter (spec_ok e w) TEXTURES)"

text \<open>The outcome of a spec whose processing returns, read off the world at the start.\<close>

definition spec_outcome :: "env \<Rightarrow> world \<Rightarrow> string \<times> string \<Rightarrow> outcome" where
  "spec_outcome e w s =
     (if path_exists (output_path e (fst s)) w = Inr True then AlreadyPresent
      else if spec_ok e w s then Saved else Failed)"

text \<open>
  The world after the directory is made and the banner printed, and the world at the
  start of the loop, after the client is constructed.
\<close>

definition batch_start :: "env \<Rightarrow> world \<Rightarrow> world" where
  "batch_start e w =
     print_all (banner e) ((record_call (Mkdir (OUTPUT_DIR e)) w)\<lparr>fs := make_dirs (OUTPUT_DIR e) (fs w)\<rparr>)"

definition loop_start :: "env \<Rightarrow> world \<Rightarrow> world" where
  "loop_start e w =
     record_call (NewClient (str_val (environ e ''OPENAI_API_KEY''))) (batch_start e w)"

text \<open>The world in which the request for an absent file has just been sent.\<close>

definition requested :: "env \<Rightarrow> string \<Rightarrow> string \<Rightarrow> world \<Rightarrow> world" where
  "requested e name prompt w =
     record_call (ImagesGenerate (gen_request prompt))
       (py_print (gen_line name) (record_call (Exists (output_path e name)) w))"

text \<open>
  The calls that may follow the request of one spec, the calls that write to a given
  path, and the tag every line of the loop begins with.
\<close>

definition tail_call :: "path \<Rightarrow> call \<Rightarrow> bool" where
  "tail_call p c =
     (case c of UrlRetrieve u q \<Rightarrow> q = p | B64Decode s \<Rightarrow> True | FileWrite q b \<Rightarrow> q = p
      | _ \<Rightarrow> False)"

definition writes_to :: "path \<Rightarrow> call \<Rightarrow> bool" where
  "writes_to p c = (case c of UrlRetrieve u q \<Rightarrow> q = p | FileWrite q b \<Rightarrow> q = p | _ \<Rightarrow> False)"

definition tagged :: "string \<Rightarrow> bool" where
  "tagged l = (take 3 l = ''  ['')"


subsection \<open>Notions used in the statements\<close>

text \<open>
  A printable exception \<open>x\<close> is caught and logged: the call returns \<open>False\<close> and prints,
  after the progress line, the failure line with the name of the spec and the text of
  the exception.
\<close>

definition caught :: "env \<Rightarrow> string \<Rightarrow> string \<Rightarrow> world \<Rightarrow> exc \<Rightarrow> bool" where
  "caught e name prompt w x =
     (fst (generate_texture e name prompt w) = Inr False \<and>
      new_stdout w (snd (generate_texture e name prompt w)) =
        [''  [GEN] '' @ name @ ''...'',
         ''  [ERR] Failed to generate '' @ name @ '': '' @ exc_str x] \<and>
      outcomes (new_stdout w (snd (generate_texture e name prompt w))) = [Failed])"

text \<open>
  For the end-to-end scenarios: a service that answers a spec with a URL that downloads;
  the specs whose file is there at the start; the specs whose file is new after the run.
\<close>

definition url_service_ok :: "env \<Rightarrow> string \<Rightarrow> string \<Rightarrow> bool" where
  "url_service_ok e name prompt =
     (case images_generate e (gen_request prompt) of
        Inl x \<Rightarrow> False
      | Inr r \<Rightarrow>
          (case data r of
             None \<Rightarrow> False
           | Some [] \<Rightarrow> False
           | Some (img # rest) \<Rightarrow>
               truthy (url img) \<and>
               (case urlretrieve e (str_val (url img)) (output_path e name) of
                  Inl x \<Rightarrow> False
                | Inr b \<Rightarrow> True)))"

definition present_specs :: "env \<Rightarrow> world \<Rightarrow> (string \<times> string) list" where
  "present_specs e w =
     filter (\<lambda>s. path_exists (output_path e (fst s)) w = Inr True) TEXTURES"

definition created_specs :: "env \<Rightarrow> world \<Rightarrow> world \<Rightarrow> (string \<times> string) list" where
  "created_specs e w w' =
     filter (\<lambda>s. path_exists (output_path e (fst s)) w = Inr False \<and>
                 path_exists (output_path e (fst s)) w' = Inr True)
       TEXTURES"

subsection \<open>Example worlds\<close>

text \<open>
  A machine on which everything works: the package is installed, the key is set, the
  client can be constructed, and the service answers every request with a URL that
  downloads.
\<close>

definition demo_env :: env where
  "demo_env =
     \<lparr>openai_installed = True,
      environ = (\<lambda>v. if v = ''OPENAI_API_KEY'' then Some ''sk-demo'' else None),
      script_root = [''repo''],
      mkdir_error = None,
      client_error = None,
      images_generate =
        (\<lambda>r. Inr \<lparr>data = Some [\<lparr>url = Some ''https://cdn.example/img'', b64_json = NoneVal\<rparr>]\<rparr>),
      urlretrieve = (\<lambda>u p. Inr ''PNG-bytes''),
      b64decode = (\<lambda>s. Inr s),
      file_write = (\<lambda>p b. None)\<rparr>"

text \<open>
  Variations of the service: a response whose image has neither form, a response with no
  image at all, a response with inline data only, a response with both forms whose
  download fails, a request that fails for the third spec only, and a request that fails
  for the third spec with an exception whose text cannot be printed.
\<close>

definition no_image_env :: env where
  "no_image_env =
     demo_env\<lparr>images_generate := (\<lambda>r. Inr \<lparr>data = Some [\<lparr>url = None, b64_json = NoneVal\<rparr>]\<rparr>)\<rparr>"

definition empty_data_env :: env where
  "empty_data_env = demo_env\<lparr>images_generate := (\<lambda>r. Inr \<lparr>data = Some []\<rparr>)\<rparr>"

definition inline_env :: env where
  "inline_env =
     demo_env\<lparr>images_generate := (\<lambda>r. Inr \<lparr>data = Some [\<lparr>url = None, b64_json = StrVal ''aGk=''\<rparr>]\<rparr>),
              b64decode := (\<lambda>s. Inr ''hi'')\<rparr>"

definition broken_download_env :: env where
  "broken_download_env =
     demo_env\<lparr>images_generate :=
                (\<lambda>r. Inr \<lparr>data = Some [\<lparr>url = Some ''https://cdn.example/img'',
                                         b64_json = StrVal ''aGk=''\<rparr>]\<rparr>),
              urlretrieve := (\<lambda>u p. Inl (Exception ''URLError'' ''timed out'', None))\<rparr>"

definition failing_env :: env where
  "failing_env =
     demo_env\<lparr>images_generate :=
       (\<lambda>r. if req_prompt r = snd (TEXTURES ! 2)
            then Inl (Exception ''APIError'' ''server error'')
            else images_generate demo_env r)\<rparr>"

definition unprintable_env :: env where
  "unprintable_env =
     demo_env\<lparr>images_generate :=
       (\<lambda>r. if req_prompt r = snd (TEXTURES ! 2)
            then Inl (Unprintable ''APIError''
                       (Exception ''UnicodeEncodeError'' ''codec cannot encode character''))
            else images_generate demo_env r)\<rparr>"

text \<open>
  Variations of the machine: the package missing, and a client that cannot be
  constructed.
\<close>

definition no_package_env :: env where
  "no_package_env = demo_env\<lparr>openai_installed := False\<rparr>"

definition no_client_env :: env where
  "no_client_env =
     demo_env\<lparr>client_error := Some (Exception ''OpenAIError'' ''client could not be created'')\<rparr>"

text \<open>Worlds in which one, or three, of the eight files are already there.\<close>

definition demo_world :: world where
  "demo_world = blank\<lparr>fs := (fs blank)(output_path demo_env ''ritual_wall'' \<mapsto> File ''old bytes'')\<rparr>"

definition three_files_world :: world where
  "three_files_world =
     blank\<lparr>fs := (fs blank)
        (output_path demo_env ''industrial_floor'' \<mapsto> File ''one'',
         output_path demo_env ''ritual_wall'' \<mapsto> File ''two'',
         output_path demo_env ''neutral_wall'' \<mapsto> File ''three'')\<rparr>"


section \<open>Basic facts\<close>

declare str_nat.simps [simp del]

lemma fs_simps [simp]:
  "fs (py_print s w) = fs w" "fs (record_call c w) = fs w"
  "fs (write_node p b w) = (fs w)(p \<mapsto> File b)"
  by (simp_all add: py_print_def record_call_def write_node_def)

lemma stdout_simps [simp]:
  "stdout (py_print s w) = stdout w @ [s]" "stdout (record_call c w) = stdout w"
  "stdout (write_node p b w) = stdout w" "stdout (leave p l w) = stdout w"
  by (simp_all add: py_print_def record_call_def write_node_def leave_def split: option.splits)

lemma calls_simps [simp]:
  "calls (py_print s w) = calls w" "calls (record_call c w) = calls w @ [c]"
  "calls (write_node p b w) = calls w" "calls (leave p l w) = calls w"
  by (simp_all add: py_print_def record_call_def write_node_def leave_def split: option.splits)

lemma fs_leave:
  "fs (leave p l w) q = (if q = p \<and> l \<noteq> None then map_option File l else fs w q)"
  by (simp add: leave_def split: option.splits)

lemma blank_simps [simp]: "fs blank = (\<lambda>_. None)" "stdout blank = []" "calls blank = []"
  by (simp_all add: blank_def)

lemma graft_simps [simp]:
  "fs (graft w d) = fs w ++ fs d" "stdout (graft w d) = stdout w @ stdout d"
  "calls (graft w d) = calls w @ calls d"
  by (simp_all add: graft_def)

lemma graft_blank [simp]: "graft w blank = w"
  by (simp add: graft_def blank_def)

lemma graft_assoc: "graft (graft w a) b = graft w (graft a b)"
  by (simp add: graft_def)

lemma graft_py_print: "graft w (py_print s d) = py_print s (graft w d)"
  by (simp add: graft_def py_print_def)

lemma graft_record_call: "graft w (record_call c d) = record_call c (graft w d)"
  by (simp add: graft_def record_call_def)

lemma graft_write_node: "graft w (write_node p b d) = write_node p b (graft w d)"
  by (simp add: graft_def write_node_def)

lemma graft_leave: "graft w (leave p l d) = leave p l (graft w d)"
  by (simp add: leave_def graft_write_node split: option.splits)

lemmas graft_push = graft_py_print graft_record_call graft_write_node graft_leave

lemma output_path_inj [simp]: "(output_path e a = output_path e b) = (a = b)"
  by (simp add: output_path_def)

lemma path_exists_simps [simp]:
  "path_exists p (py_print s w) = path_exists p w"
  "path_exists p (record_call c w) = path_exists p w"
  "path_exists p blank = Inr False"
  by (simp_all add: path_exists_def)

lemma path_exists_cong: "fs w2 p = fs w p \<Longrightarrow> path_exists p w2 = path_exists p w"
  by (simp add: path_exists_def)

lemma path_exists_absent: "(path_exists p w = Inr False) = (fs w p = None)"
  by (simp add: path_exists_def split: option.splits node.splits)

lemma path_exists_present:
  "(path_exists p w = Inr True) = (\<exists>b. fs w p = Some (File b) \<or> fs w p = Some Dir)"
  by (auto simp add: path_exists_def split: option.splits node.splits)

lemma path_exists_raises: "(path_exists p w = Inl x) = (fs w p = Some (Inaccessible x))"
  by (simp add: path_exists_def split: option.splits node.splits)

lemmas line_defs = skip_line_def gen_line_def ok_line_def failed_line_def no_image_line_def

subsection \<open>One spec\<close>

lemma try_body_graft:
  "try_body e name prompt w = (case try_body e name prompt blank of (r, d) \<Rightarrow> (r, graft w d))"
  by (simp add: try_body_def Let_def graft_push
      split: sum.splits option.splits list.splits attr.splits prod.splits)

lemma try_body_frame:
  "q \<noteq> output_path e name \<Longrightarrow> fs (snd (try_body e name prompt w)) q = fs w q"
  by (simp add: try_body_def Let_def fs_leave
      split: sum.splits option.splits list.splits attr.splits prod.splits)

text \<open>The three ways through \<open>generate_texture\<close>, by the answer of the existence check.\<close>

lemma generate_texture_inaccessible:
  "path_exists (output_path e name) w = Inl x \<Longrightarrow>
   generate_texture e name prompt w = (Inl x, record_call (Exists (output_path e name)) w)"
  by (simp add: generate_texture_def Let_def)

lemma generate_texture_present:
  "path_exists (output_path e name) w = Inr True \<Longrightarrow>
   generate_texture e name prompt w =
     (Inr True, py_print (skip_line name) (record_call (Exists (output_path e name)) w))"
  by (simp add: generate_texture_def Let_def skip_line_def)

lemma generate_texture_absent:
  "path_exists (output_path e name) w = Inr False \<Longrightarrow>
   generate_texture e name prompt w =
     (case try_body e name prompt
             (py_print (gen_line name) (record_call (Exists (output_path e name)) w)) of
        (Inr r, w') \<Rightarrow> (Inr r, w')
      | (Inl x, w') \<Rightarrow>
          (case x of
             Exception c s \<Rightarrow> (Inr False, py_print (failed_line name (Exception c s)) w')
           | Unprintable c y \<Rightarrow> (Inl y, w')))"
  by (simp add: generate_texture_def Let_def line_defs split: prod.splits sum.splits exc.splits)

lemma generate_texture_frame:
  "q \<noteq> output_path e name \<Longrightarrow> fs (snd (generate_texture e name prompt w)) q = fs w q"
proof (cases "path_exists (output_path e name) w")
  case (Inl x)
  then show ?thesis by (simp add: generate_texture_inaccessible)
next
  case (Inr found)
  assume q: "q \<noteq> output_path e name"
  show ?thesis
  proof (cases found)
    case True
    with Inr show ?thesis by (simp add: generate_texture_present)
  next
    case False
    define w0 where "w0 = py_print (gen_line name) (record_call (Exists (output_path e name)) w)"
    obtain r w' where t: "try_body e name prompt w0 = (r, w')"
      by (cases "try_body e name prompt w0")
    have "fs w' q = fs w0 q" using try_body_frame [OF q, of prompt w0] by (simp add: t)
    then have f: "fs w' q = fs w q" by (simp add: w0_def)
    from Inr False have a: "path_exists (output_path e name) w = Inr False" by simp
    show ?thesis
      unfolding generate_texture_absent [OF a] w0_def [symmetric] t
      using f by (simp split: sum.splits exc.splits)
  qed
qed

lemma generate_texture_absent_graft:
  assumes "path_exists (output_path e name) w = Inr False"
  shows "generate_texture e name prompt w =
         (case generate_texture e name prompt blank of (r, d) \<Rightarrow> (r, graft w d))"
proof -
  define w0 where "w0 = py_print (gen_line name) (record_call (Exists (output_path e name)) w)"
  define b0 where "b0 = py_print (gen_line name) (record_call (Exists (output_path e name)) blank)"
  obtain r d where tb: "try_body e name prompt b0 = (r, d)"
    by (cases "try_body e name prompt b0")
  obtain r0 d0 where t0: "try_body e name prompt blank = (r0, d0)"
    by (cases "try_body e name prompt blank")
  have w0: "w0 = graft w b0" by (simp add: w0_def b0_def graft_push)
  have "try_body e name prompt b0 = (r0, graft b0 d0)"
    by (subst try_body_graft) (simp add: t0)
  with tb have rd: "r = r0" "d = graft b0 d0" by simp_all
  have tw: "try_body e name prompt w0 = (r, graft w d)"
    by (subst try_body_graft) (simp add: t0 rd w0 graft_assoc)
  have b: "path_exists (output_path e name) blank = Inr False" by simp
  show ?thesis
    unfolding generate_texture_absent [OF assms] generate_texture_absent [OF b]
      w0_def [symmetric] b0_def [symmetric] tw tb
    by (simp add: graft_push split: sum.splits exc.splits)
qed

lemma generate_texture_graft:
  "generate_texture e name prompt w =
     (spec_res e w (name, prompt), graft w (spec_delta e w (name, prompt)))"
proof (cases "path_exists (output_path e name) w")
  case (Inl x)
  then show ?thesis
    by (simp add: spec_res_def spec_delta_def generate_texture_inaccessible graft_push)
next
  case (Inr found)
  show ?thesis
  proof (cases found)
    case True
    with Inr have a: "path_exists (output_path e name) w = Inr True" by simp
    show ?thesis
      by (simp add: spec_res_def spec_delta_def generate_texture_present [OF a] a graft_push)
  next
    case False
    with Inr have a: "path_exists (output_path e name) w = Inr False" by simp
    show ?thesis
      by (simp add: spec_res_def spec_delta_def generate_texture_absent_graft [OF a] a
          split: prod.splits)
  qed
qed

lemma spec_delta_dom:
  "q \<noteq> output_path e name \<Longrightarrow> fs (spec_delta e w (name, prompt)) q = None"
  using generate_texture_frame [of q e name prompt blank]
  by (simp add: spec_delta_def split: sum.splits)

lemma spec_delta_occupied:
  "fs w (output_path e name) \<noteq> None \<Longrightarrow> fs (spec_delta e w (name, prompt)) = (\<lambda>_. None)"
  by (auto simp add: spec_delta_def path_exists_def split: option.splits node.splits)

lemma spec_res_cases:
  "spec_res e w (name, prompt) =
     (case path_exists (output_path e name) w of
        Inl x \<Rightarrow> Inl x
      | Inr found \<Rightarrow> if found then Inr True else fst (generate_texture e name prompt blank))"
proof (cases "path_exists (output_path e name) w")
  case (Inl x)
  then show ?thesis by (simp add: spec_res_def generate_texture_inaccessible)
next
  case (Inr found)
  show ?thesis
  proof (cases found)
    case True
    with Inr show ?thesis by (simp add: spec_res_def generate_texture_present)
  next
    case False
    with Inr have a: "path_exists (output_path e name) w = Inr False" by simp
    show ?thesis
      by (simp add: spec_res_def generate_texture_absent_graft [OF a] a split: prod.splits)
  qed
qed

lemma spec_local:
  assumes "fs w2 (output_path e (fst s)) = fs w (output_path e (fst s))"
  shows "spec_res e w2 s = spec_res e w s" and "spec_delta e w2 s = spec_delta e w s"
proof -
  obtain name prompt where s: "s = (name, prompt)" by (cases s)
  from assms have "fs w2 (output_path e name) = fs w (output_path e name)"
    by (simp add: s)
  then have p: "path_exists (output_path e name) w2 = path_exists (output_path e name) w"
    by (rule path_exists_cong)
  show "spec_res e w2 s = spec_res e w s"
    unfolding s by (simp add: spec_res_cases p)
  show "spec_delta e w2 s = spec_delta e w s"
    unfolding s spec_delta_def by (simp add: p)
qed

subsection \<open>The loop\<close>

lemma processed_subset: "set (processed e w specs) \<subseteq> set specs"
  by (induction specs) auto

lemma processed_prefix: "processed e w specs = take (length (processed e w specs)) specs"
  by (induction specs) simp_all

lemma processed_cong:
  "(\<And>t. t \<in> set specs \<Longrightarrow> spec_res e w2 t = spec_res e w t) \<Longrightarrow>
   processed e w2 specs = processed e w specs"
  by (induction specs) simp_all

lemma batch_res_cong:
  "(\<And>t. t \<in> set specs \<Longrightarrow> spec_res e w2 t = spec_res e w t) \<Longrightarrow>
   batch_res e w2 specs c = batch_res e w specs c"
  by (induction specs arbitrary: c) (simp_all split: sum.splits)

lemma batch_delta_cong:
  "(\<And>t. t \<in> set specs \<Longrightarrow> spec_delta e w2 t = spec_delta e w t) \<Longrightarrow>
   batch_delta e w2 specs = batch_delta e w specs"
  by (simp add: batch_delta_def cong: map_cong)

lemma batch_delta_Cons:
  "batch_delta e w (s # specs) = graft (spec_delta e w s) (batch_delta e w specs)"
  by (simp add: batch_delta_def)

lemma batch_delta_Nil [simp]: "batch_delta e w [] = blank"
  by (simp add: batch_delta_def)

lemma run_specs_graft:
  "distinct (map fst specs) \<Longrightarrow>
   run_specs e specs c w =
     (batch_res e w specs c, graft w (batch_delta e w (processed e w specs)))"
proof (induction specs arbitrary: c w)
  case Nil
  then show ?case by simp
next
  case (Cons s specs)
  obtain name prompt where s: "s = (name, prompt)" by (cases s)
  let ?w1 = "graft w (spec_delta e w s)"
  have g: "generate_texture e name prompt w = (spec_res e w s, ?w1)"
    unfolding s by (rule generate_texture_graft)
  show ?case
  proof (cases "spec_res e w s")
    case (Inl x)
    then show ?thesis
      by (simp add: s g [unfolded s] batch_delta_Cons)
  next
    case (Inr ok)
    have loc: "fs ?w1 (output_path e (fst t)) = fs w (output_path e (fst t))"
      if "t \<in> set specs" for t
    proof -
      from that Cons.prems have "fst t \<noteq> name" by (auto simp: s)
      then have "output_path e (fst t) \<noteq> output_path e name" by simp
      then have "fs (spec_delta e w s) (output_path e (fst t)) = None"
        unfolding s by (rule spec_delta_dom)
      then show ?thesis by (simp add: map_add_def)
    qed
    have r: "batch_res e ?w1 specs k = batch_res e w specs k" for k
      by (rule batch_res_cong) (rule spec_local(1) [OF loc])
    have p: "processed e ?w1 specs = processed e w specs"
      by (rule processed_cong) (rule spec_local(1) [OF loc])
    have d: "batch_delta e ?w1 (processed e w specs) = batch_delta e w (processed e w specs)"
    proof (rule batch_delta_cong)
      fix t assume "t \<in> set (processed e w specs)"
      then have "t \<in> set specs" using processed_subset by blast
      then show "spec_delta e ?w1 t = spec_delta e w t" by (rule spec_local(2) [OF loc])
    qed
    from Cons.prems have dd: "distinct (map fst specs)" by simp
    have step: "run_specs e (s # specs) c w =
        run_specs e specs (if ok then c + 1 else c) ?w1"
      by (simp add: s g [unfolded s] Inr [unfolded s])
    have pr: "processed e w (s # specs) = s # processed e w specs"
      by (simp add: Inr)
    have br: "batch_res e w (s # specs) c = batch_res e w specs (if ok then c + 1 else c)"
      by (simp add: Inr)
    show ?thesis
      unfolding step Cons.IH [OF dd] r p d pr br batch_delta_Cons graft_assoc ..
  qed
qed

lemma batch_res_Inr:
  "batch_res e w specs c = Inr k \<Longrightarrow>
   processed e w specs = specs \<and> (\<forall>s\<in>set specs. \<not> isl (spec_res e w s)) \<and>
   k = c + length (filter (spec_ok e w) specs)"
proof (induction specs arbitrary: c)
  case Nil
  then show ?case by simp
next
  case (Cons s specs)
  from Cons.prems obtain ok where ok: "spec_res e w s = Inr ok"
    and rest: "batch_res e w specs (if ok then c + 1 else c) = Inr k"
    by (auto split: sum.splits)
  have so: "spec_ok e w s = ok" by (simp add: spec_ok_def ok)
  from Cons.IH [OF rest] show ?case
    by (cases ok) (simp_all add: ok so)
qed

lemma batch_res_all:
  "(\<And>s. s \<in> set specs \<Longrightarrow> \<not> isl (spec_res e w s)) \<Longrightarrow>
   batch_res e w specs c = Inr (c + length (filter (spec_ok e w) specs))"
proof (induction specs arbitrary: c)
  case Nil
  then show ?case by simp
next
  case (Cons s specs)
  from Cons.prems [of s] obtain ok where ok: "spec_res e w s = Inr ok"
    by (cases "spec_res e w s") simp_all
  have "batch_res e w specs k = Inr (k + length (filter (spec_ok e w) specs))" for k
    by (rule Cons.IH) (simp add: Cons.prems)
  moreover have "spec_ok e w s = ok" by (simp add: spec_ok_def ok)
  ultimately show ?case by (cases ok) (simp_all add: ok)
qed

lemma batch_res_Inl:
  "batch_res e w specs c = Inl x \<Longrightarrow> \<exists>s\<in>set specs. spec_res e w s = Inl x"
  by (induction specs arbitrary: c) (auto split: sum.splits)

lemma print_all_simps [simp]:
  "stdout (print_all ls w) = stdout w @ ls" "calls (print_all ls w) = calls w"
  "fs (print_all ls w) = fs w"
  unfolding print_all_def by (induction ls arbitrary: w) simp_all

lemma new_stdout_append [simp]: "stdout w' = stdout w @ ls \<Longrightarrow> new_stdout w w' = ls"
  by (simp add: new_stdout_def)

lemma new_calls_append [simp]: "calls w' = calls w @ cs \<Longrightarrow> new_calls w w' = cs"
  by (simp add: new_calls_def)

subsection \<open>The batch\<close>

lemma TEXTURES_length: "length TEXTURES = 8"
  by (simp add: TEXTURES_def)

lemma TEXTURES_names_distinct: "distinct (map fst TEXTURES)"
  by (simp add: TEXTURES_def)

lemma TEXTURES_prompts_distinct: "distinct (map snd TEXTURES)"
  by (simp add: TEXTURES_def)

lemma prompt_determines_name:
  "(n, p) \<in> set TEXTURES \<Longrightarrow> (n', p) \<in> set TEXTURES \<Longrightarrow> n = n'"
  using TEXTURES_prompts_distinct
  by (metis distinct_map inj_on_def snd_conv fst_conv)

lemma stdout_batch:
  "stdout (batch_delta e w specs) = concat (map (\<lambda>s. stdout (spec_delta e w s)) specs)"
  by (induction specs) (simp_all add: batch_delta_Cons)

lemma calls_batch:
  "calls (batch_delta e w specs) = concat (map (\<lambda>s. calls (spec_delta e w s)) specs)"
  by (induction specs) (simp_all add: batch_delta_Cons)

lemma fs_batch_other:
  "(\<And>s. s \<in> set specs \<Longrightarrow> q \<noteq> output_path e (fst s)) \<Longrightarrow> fs (batch_delta e w specs) q = None"
proof (induction specs)
  case Nil
  then show ?case by simp
next
  case (Cons s specs)
  obtain name prompt where s: "s = (name, prompt)" by (cases s)
  have "q \<noteq> output_path e name" using Cons.prems [of s] by (simp add: s)
  then have a: "fs (spec_delta e w s) q = None" unfolding s by (rule spec_delta_dom)
  have b: "fs (batch_delta e w specs) q = None"
    by (rule Cons.IH) (simp add: Cons.prems)
  show ?case unfolding batch_delta_Cons using a b by (simp add: map_add_def)
qed

lemma fs_batch_at:
  "distinct (map fst specs) \<Longrightarrow> (name, prompt) \<in> set specs \<Longrightarrow>
   fs (batch_delta e w specs) (output_path e name) =
   fs (spec_delta e w (name, prompt)) (output_path e name)"
proof (induction specs)
  case Nil
  then show ?case by simp
next
  case (Cons s specs)
  show ?case
  proof (cases "s = (name, prompt)")
    case True
    have "fs (batch_delta e w specs) (output_path e name) = None"
    proof (rule fs_batch_other)
      fix t assume "t \<in> set specs"
      with Cons.prems(1) True have "fst t \<noteq> name" by auto
      then show "output_path e name \<noteq> output_path e (fst t)" by simp
    qed
    then show ?thesis unfolding batch_delta_Cons by (simp add: True map_add_def)
  next
    case False
    with Cons.prems have mem: "(name, prompt) \<in> set specs" and d: "distinct (map fst specs)"
      by auto
    obtain n2 p2 where s: "s = (n2, p2)" by (cases s)
    from mem have "name \<in> fst ` set specs" by force
    with Cons.prems(1) have "n2 \<noteq> name" by (auto simp: s)
    then have "fs (spec_delta e w s) (output_path e name) = None"
      unfolding s by (intro spec_delta_dom) simp
    moreover have "fs (batch_delta e w specs) (output_path e name) =
        fs (spec_delta e w (name, prompt)) (output_path e name)"
      by (rule Cons.IH [OF d mem])
    ultimately show ?thesis
      unfolding batch_delta_Cons by (simp add: map_add_def split: option.splits)
  qed
qed

text \<open>Whatever specs are processed, nothing is stored at a path that was occupied.\<close>

lemma fs_batch_occupied:
  "fs w q \<noteq> None \<Longrightarrow> fs (batch_delta e w specs) q = None"
proof (induction specs)
  case Nil
  then show ?case by simp
next
  case (Cons s specs)
  obtain name prompt where s: "s = (name, prompt)" by (cases s)
  have "fs (spec_delta e w s) q = None"
  proof (cases "q = output_path e name")
    case True
    with Cons.prems have "fs w (output_path e name) \<noteq> None" by simp
    then show ?thesis unfolding s by (simp add: spec_delta_occupied)
  next
    case False
    then show ?thesis unfolding s by (rule spec_delta_dom)
  qed
  with Cons.IH [OF Cons.prems] show ?case
    unfolding batch_delta_Cons by (simp add: map_add_def)
qed

lemma output_path_not_dir: "output_path e name \<noteq> take n (OUTPUT_DIR e)"
proof
  assume "output_path e name = take n (OUTPUT_DIR e)"
  then have "length (output_path e name) = length (take n (OUTPUT_DIR e))" by simp
  then show False by (simp add: output_path_def)
qed

lemma make_dirs_output_path [simp]:
  "make_dirs (OUTPUT_DIR e) f (output_path e name) = f (output_path e name)"
  using output_path_not_dir [of e name "length (output_path e name)"]
  by (simp add: make_dirs_def)

lemma make_dirs_keeps: "f q = Some v \<Longrightarrow> make_dirs p f q = Some v"
  by (simp add: make_dirs_def)

lemma batch_start_simps [simp]:
  "stdout (batch_start e w) = stdout w @ banner e"
  "calls (batch_start e w) = calls w @ [Mkdir (OUTPUT_DIR e)]"
  "fs (batch_start e w) = make_dirs (OUTPUT_DIR e) (fs w)"
  by (simp_all add: batch_start_def record_call_def)

lemma loop_start_simps [simp]:
  "stdout (loop_start e w) = stdout w @ banner e"
  "calls (loop_start e w) =
     calls w @ [Mkdir (OUTPUT_DIR e), NewClient (str_val (environ e ''OPENAI_API_KEY''))]"
  "fs (loop_start e w) = make_dirs (OUTPUT_DIR e) (fs w)"
  by (simp_all add: loop_start_def)

lemma loop_start_local:
  "spec_res e (loop_start e w) s = spec_res e w s"
  "spec_delta e (loop_start e w) s = spec_delta e w s"
  by (rule spec_local; simp)+

lemma loop_start_batch:
  "batch_res e (loop_start e w) specs c = batch_res e w specs c"
  "processed e (loop_start e w) specs = processed e w specs"
  "batch_delta e (loop_start e w) specs = batch_delta e w specs"
  by (rule batch_res_cong processed_cong batch_delta_cong, rule loop_start_local)+

text \<open>The four ways through \<open>main\<close>.\<close>

lemma main_no_key:
  "\<not> truthy (environ e ''OPENAI_API_KEY'') \<Longrightarrow>
   main e w = (SystemExit 1, print_all key_error_lines w)"
  by (simp add: main_def)

lemma main_mkdir_raises:
  "truthy (environ e ''OPENAI_API_KEY'') \<Longrightarrow> mkdir_error e = Some x \<Longrightarrow>
   main e w = (Uncaught x, record_call (Mkdir (OUTPUT_DIR e)) w)"
  by (simp add: main_def mkdir_def Let_def)

lemma main_client_raises:
  "truthy (environ e ''OPENAI_API_KEY'') \<Longrightarrow> mkdir_error e = None \<Longrightarrow>
   client_error e = Some x \<Longrightarrow>
   main e w = (Uncaught x, loop_start e w)"
  by (simp add: main_def mkdir_def Let_def loop_start_def batch_start_def)

lemma main_loop:
  assumes "truthy (environ e ''OPENAI_API_KEY'')" and "mkdir_error e = None"
    and "client_error e = None"
  shows "main e w =
    (case batch_res e w TEXTURES 0 of
       Inl x \<Rightarrow> (Uncaught x, graft (loop_start e w) (batch_delta e w (processed e w TEXTURES)))
     | Inr k \<Rightarrow>
         (Returned,
          (if k < length TEXTURES then py_print retry_line else id)
            (py_print (summary_line k)
              (py_print '''' (graft (loop_start e w) (batch_delta e w TEXTURES))))))"
proof -
  have r: "run_specs e TEXTURES 0 (loop_start e w) =
      (batch_res e w TEXTURES 0,
       graft (loop_start e w) (batch_delta e w (processed e w TEXTURES)))"
    by (simp add: run_specs_graft [OF TEXTURES_names_distinct] loop_start_batch)
  have m: "mkdir e (OUTPUT_DIR e) w =
      (None, (record_call (Mkdir (OUTPUT_DIR e)) w)\<lparr>fs := make_dirs (OUTPUT_DIR e) (fs w)\<rparr>)"
    using assms(2) by (simp add: mkdir_def Let_def)
  have p: "processed e w TEXTURES = TEXTURES" if "batch_res e w TEXTURES 0 = Inr k" for k
    using batch_res_Inr [OF that] by simp
  show ?thesis
    using assms(1,3) p
    by (simp add: main_def m r [unfolded loop_start_def batch_start_def] loop_start_def
        batch_start_def Let_def split: sum.splits)
qed

subsection \<open>One spec, path by path\<close>

lemmas absent_defs = generate_texture_def try_body_def Let_def line_defs requested_def
  path_exists_def

lemma generate_texture_request_raises:
  assumes "fs w (output_path e name) = None"
    and "images_generate e (gen_request prompt) = Inl (Exception c s)"
  shows "generate_texture e name prompt w =
     (Inr False, py_print (failed_line name (Exception c s)) (requested e name prompt w))"
  using assms by (simp add: absent_defs)

lemma generate_texture_request_unprintable:
  assumes "fs w (output_path e name) = None"
    and "images_generate e (gen_request prompt) = Inl (Unprintable c y)"
  shows "generate_texture e name prompt w = (Inl y, requested e name prompt w)"
  using assms by (simp add: absent_defs)

lemma generate_texture_url_saved:
  assumes "fs w (output_path e name) = None"
    and "images_generate e (gen_request prompt) = Inr r"
    and "data r = Some (img # rest)"
    and "truthy (url img)"
    and "urlretrieve e (str_val (url img)) (output_path e name) = Inr b"
  shows "generate_texture e name prompt w =
     (Inr True, py_print (ok_line name) (write_node (output_path e name) b
        (record_call (UrlRetrieve (str_val (url img)) (output_path e name))
           (requested e name prompt w))))"
  using assms by (simp add: absent_defs)

lemma generate_texture_url_raises:
  assumes "fs w (output_path e name) = None"
    and "images_generate e (gen_request prompt) = Inr r"
    and "data r = Some (img # rest)"
    and "truthy (url img)"
    and "urlretrieve e (str_val (url img)) (output_path e name) = Inl (Exception c s, left)"
  shows "generate_texture e name prompt w =
     (Inr False, py_print (failed_line name (Exception c s)) (leave (output_path e name) left
        (record_call (UrlRetrieve (str_val (url img)) (output_path e name))
           (requested e name prompt w))))"
  using assms by (simp add: absent_defs)

lemma generate_texture_b64_saved:
  assumes "fs w (output_path e name) = None"
    and "images_generate e (gen_request prompt) = Inr r"
    and "data r = Some (img # rest)"
    and "\<not> truthy (url img)"
    and "b64_json img = StrVal s" and "s \<noteq> []"
    and "b64decode e s = Inr d"
    and "file_write e (output_path e name) d = None"
  shows "generate_texture e name prompt w =
     (Inr True, py_print (ok_line name) (write_node (output_path e name) d
        (record_call (FileWrite (output_path e name) d)
          (record_call (B64Decode s) (requested e name prompt w)))))"
  using assms by (simp add: absent_defs)

lemma generate_texture_decode_raises:
  assumes "fs w (output_path e name) = None"
    and "images_generate e (gen_request prompt) = Inr r"
    and "data r = Some (img # rest)"
    and "\<not> truthy (url img)"
    and "b64_json img = StrVal s" and "s \<noteq> []"
    and "b64decode e s = Inl (Exception c t)"
  shows "generate_texture e name prompt w =
     (Inr False, py_print (failed_line name (Exception c t))
          (record_call (B64Decode s) (requested e name prompt w)))"
  using assms by (simp add: absent_defs)

lemma generate_texture_write_raises:
  assumes "fs w (output_path e name) = None"
    and "images_generate e (gen_request prompt) = Inr r"
    and "data r = Some (img # rest)"
    and "\<not> truthy (url img)"
    and "b64_json img = StrVal s" and "s \<noteq> []"
    and "b64decode e s = Inr d"
    and "file_write e (output_path e name) d = Some (Exception c t, left)"
  shows "generate_texture e name prompt w =
     (Inr False, py_print (failed_line name (Exception c t)) (leave (output_path e name) left
        (record_call (FileWrite (output_path e name) d)
          (record_call (B64Decode s) (requested e name prompt w)))))"
  using assms by (simp add: absent_defs)

lemma generate_texture_no_image:
  assumes "fs w (output_path e name) = None"
    and "images_generate e (gen_request prompt) = Inr r"
    and "data r = Some (img # rest)"
    and "\<not> truthy (url img)"
    and "b64_json img = NoAttr \<or> b64_json img = NoneVal \<or> b64_json img = StrVal []"
  shows "generate_texture e name prompt w =
     (Inr False, py_print no_image_line (requested e name prompt w))"
  using assms by (auto simp add: absent_defs)

lemma generate_texture_empty_data:
  assumes "fs w (output_path e name) = None"
    and "images_generate e (gen_request prompt) = Inr r"
    and "data r = Some []"
  shows "generate_texture e name prompt w =
     (Inr False,
      py_print (failed_line name (Exception ''IndexError'' ''list index out of range''))
        (requested e name prompt w))"
  using assms by (simp add: absent_defs)

lemma generate_texture_none_data:
  assumes "fs w (output_path e name) = None"
    and "images_generate e (gen_request prompt) = Inr r"
    and "data r = None"
  shows "generate_texture e name prompt w =
     (Inr False,
      py_print (failed_line name (Exception ''TypeError''
          (CHR 0x27 # ''NoneType'' @ CHR 0x27 # '' object is not subscriptable'')))
        (requested e name prompt w))"
  using assms by (simp add: absent_defs)

lemma classify_lines [simp]:
  "classify (skip_line name) = Some AlreadyPresent"
  "classify (gen_line name) = None"
  "classify (ok_line name) = Some Saved"
  "classify (failed_line name x) = Some Failed"
  "classify no_image_line = Some Failed"
  by (simp_all add: classify_def line_defs)

lemma outcomes_append [simp]: "outcomes (xs @ ys) = outcomes xs @ outcomes ys"
  by (induction xs) (simp_all split: option.splits)

lemma requested_simps [simp]:
  "fs (requested e name prompt w) = fs w"
  "stdout (requested e name prompt w) = stdout w @ [gen_line name]"
  "calls (requested e name prompt w) =
     calls w @ [Exists (output_path e name), ImagesGenerate (gen_request prompt)]"
  by (simp_all add: requested_def)

subsection \<open>Outcomes\<close>

lemma spec_delta_inaccessible:
  "path_exists (output_path e name) w = Inl x \<Longrightarrow>
   spec_delta e w (name, prompt) = record_call (Exists (output_path e name)) blank"
  by (simp add: spec_delta_def)

lemma spec_delta_present:
  "path_exists (output_path e name) w = Inr True \<Longrightarrow>
   spec_delta e w (name, prompt) =
     py_print (skip_line name) (record_call (Exists (output_path e name)) blank)"
  by (simp add: spec_delta_def)

lemma spec_delta_absent:
  "path_exists (output_path e name) w = Inr False \<Longrightarrow>
   spec_delta e w (name, prompt) = snd (generate_texture e name prompt blank)"
  by (simp add: spec_delta_def)

lemma path_exists_cases:
  obtains x where "path_exists p w = Inl x"
  | "path_exists p w = Inr True" | "path_exists p w = Inr False"
  by (cases "path_exists p w") auto

lemma try_body_outcomes:
  "outcomes (stdout (snd (try_body e name prompt w))) =
   outcomes (stdout w) @
     (case fst (try_body e name prompt w) of
        Inl x \<Rightarrow> [] | Inr r \<Rightarrow> [if r then Saved else Failed])"
  by (simp add: try_body_def Let_def classify_def
      split: sum.splits option.splits list.splits attr.splits prod.splits)

lemma generate_texture_outcomes:
  "outcomes (stdout (snd (generate_texture e name prompt w))) =
   outcomes (stdout w) @
     (case fst (generate_texture e name prompt w) of
        Inl x \<Rightarrow> []
      | Inr b \<Rightarrow>
          [if path_exists (output_path e name) w = Inr True then AlreadyPresent
           else if b then Saved else Failed])"
proof (cases rule: path_exists_cases [of "output_path e name" w])
  case (1 x)
  then show ?thesis by (simp add: generate_texture_inaccessible)
next
  case 2
  then show ?thesis by (simp add: generate_texture_present)
next
  case 3
  define w0 where "w0 = py_print (gen_line name) (record_call (Exists (output_path e name)) w)"
  have o: "outcomes (stdout w0) = outcomes (stdout w)"
    by (simp add: w0_def)
  obtain r w' where t: "try_body e name prompt w0 = (r, w')"
    by (cases "try_body e name prompt w0")
  from try_body_outcomes [of e name prompt w0]
  have to: "outcomes (stdout w') =
      outcomes (stdout w) @ (case r of Inl x \<Rightarrow> [] | Inr r \<Rightarrow> [if r then Saved else Failed])"
    unfolding t o by simp
  show ?thesis
    unfolding generate_texture_absent [OF 3] w0_def [symmetric] t
    using to 3 by (simp split: sum.splits exc.splits)
qed

lemma outcomes_spec_delta:
  "outcomes (stdout (spec_delta e w (name, prompt))) =
     (case spec_res e w (name, prompt) of
        Inl x \<Rightarrow> [] | Inr b \<Rightarrow> [spec_outcome e w (name, prompt)])"
proof -
  have "stdout (snd (generate_texture e name prompt w)) =
      stdout w @ stdout (spec_delta e w (name, prompt))"
    by (simp add: generate_texture_graft)
  with generate_texture_outcomes [of e name prompt w]
  have "outcomes (stdout (spec_delta e w (name, prompt))) =
     (case fst (generate_texture e name prompt w) of
        Inl x \<Rightarrow> []
      | Inr b \<Rightarrow>
          [if path_exists (output_path e name) w = Inr True then AlreadyPresent
           else if b then Saved else Failed])"
    by simp
  then show ?thesis
    by (simp add: spec_res_def [symmetric, of e w "(name, prompt)", simplified]
        spec_outcome_def spec_ok_def split: sum.splits)
qed

lemma outcomes_batch_gen:
  "outcomes (stdout (batch_delta e w specs)) =
   concat (map (\<lambda>s. outcomes (stdout (spec_delta e w s))) specs)"
  by (induction specs) (simp_all add: batch_delta_Cons)

lemma outcomes_batch:
  "(\<And>s. s \<in> set specs \<Longrightarrow> \<not> isl (spec_res e w s)) \<Longrightarrow>
   outcomes (stdout (batch_delta e w specs)) = map (spec_outcome e w) specs"
proof (induction specs)
  case Nil
  then show ?case by simp
next
  case (Cons s specs)
  obtain name prompt where s: "s = (name, prompt)" by (cases s)
  from Cons.prems [of s] obtain b where b: "spec_res e w s = Inr b"
    by (cases "spec_res e w s") simp_all
  have "outcomes (stdout (spec_delta e w s)) = [spec_outcome e w s]"
    using b unfolding s by (simp add: outcomes_spec_delta)
  moreover have "outcomes (stdout (batch_delta e w specs)) = map (spec_outcome e w) specs"
    by (rule Cons.IH) (simp add: Cons.prems)
  ultimately show ?case unfolding batch_delta_Cons by simp
qed

lemma spec_ok_outcome:
  "\<not> isl (spec_res e w s) \<Longrightarrow> spec_ok e w s = (spec_outcome e w s \<noteq> Failed)"
proof -
  obtain name prompt where s: "s = (name, prompt)" by (cases s)
  assume "\<not> isl (spec_res e w s)"
  then show ?thesis
    unfolding s spec_outcome_def spec_ok_def
    by (cases rule: path_exists_cases [of "output_path e name" w])
       (auto simp add: spec_res_cases)
qed

subsection \<open>The URL branch does not look at the inline data\<close>

lemma output_path_images_generate_update [simp]:
  "output_path (e\<lparr>images_generate := f\<rparr>) name = output_path e name"
  by (simp add: output_path_def OUTPUT_DIR_def)

lemma try_body_ignores_inline:
  assumes "images_generate e (gen_request prompt) = Inr r"
    and "data r = Some (img # rest)"
    and "truthy (url img)"
  shows "try_body
           (e\<lparr>images_generate :=
                (images_generate e)(gen_request prompt :=
                   Inr (r\<lparr>data := Some (img\<lparr>b64_json := a\<rparr> # rest)\<rparr>))\<rparr>)
           name prompt w =
         try_body e name prompt w"
  using assms by (simp add: try_body_def Let_def)

lemma generate_texture_ignores_inline:
  assumes "images_generate e (gen_request prompt) = Inr r"
    and "data r = Some (img # rest)"
    and "truthy (url img)"
  shows "generate_texture
           (e\<lparr>images_generate :=
                (images_generate e)(gen_request prompt :=
                   Inr (r\<lparr>data := Some (img\<lparr>b64_json := a\<rparr> # rest)\<rparr>))\<rparr>)
           name prompt w =
         generate_texture e name prompt w"
  unfolding generate_texture_def Let_def try_body_ignores_inline [OF assms]
    output_path_images_generate_update ..

subsection \<open>The trace of a run\<close>

lemma gen_request_inj [simp]: "(gen_request p = gen_request q) = (p = q)"
  by (auto simp add: gen_request_def)

lemma tail_call_writes_to: "tail_call q c \<Longrightarrow> writes_to p c \<Longrightarrow> q = p"
  by (cases c) (simp_all add: tail_call_def writes_to_def)

lemma writes_to_simps [simp]:
  "writes_to p (UrlRetrieve u q) = (q = p)" "writes_to p (FileWrite q b) = (q = p)"
  "\<not> writes_to p (ImagesGenerate r)" "\<not> writes_to p (Exists q)" "\<not> writes_to p (Mkdir q)"
  "\<not> writes_to p (B64Decode s)" "\<not> writes_to p (NewClient k)"
  by (simp_all add: writes_to_def)

lemma tail_call_simps [simp]:
  "\<not> tail_call p (ImagesGenerate r)" "\<not> tail_call p (Exists q)" "\<not> tail_call p (Mkdir q)"
  "\<not> tail_call p (NewClient k)"
  by (simp_all add: tail_call_def)

lemma is_exists_simps [simp]:
  "is_exists (Exists p)" "\<not> is_exists (Mkdir p)" "\<not> is_exists (NewClient k)"
  "\<not> is_exists (ImagesGenerate r)" "\<not> is_exists (UrlRetrieve u p)"
  "\<not> is_exists (B64Decode s)" "\<not> is_exists (FileWrite p b)"
  by (simp_all add: is_exists_def)

lemma try_body_calls:
  "\<exists>cs. calls (snd (try_body e name prompt w)) =
          calls w @ ImagesGenerate (gen_request prompt) # cs \<and>
        list_all (tail_call (output_path e name)) cs"
  by (simp add: try_body_def Let_def tail_call_def
      split: sum.splits option.splits list.splits attr.splits prod.splits)

lemma spec_delta_calls:
  "\<exists>cs. calls (spec_delta e w (name, prompt)) =
          Exists (output_path e name) #
            (if fs w (output_path e name) = None
             then ImagesGenerate (gen_request prompt) # cs else []) \<and>
        list_all (tail_call (output_path e name)) cs"
proof (cases rule: path_exists_cases [of "output_path e name" w])
  case (1 x)
  then have "fs w (output_path e name) \<noteq> None" by (simp add: path_exists_raises)
  then have "calls (spec_delta e w (name, prompt)) =
          Exists (output_path e name) #
            (if fs w (output_path e name) = None
             then ImagesGenerate (gen_request prompt) # [] else []) \<and>
        list_all (tail_call (output_path e name)) []"
    using 1 by (simp add: spec_delta_inaccessible)
  then show ?thesis by (rule exI)
next
  case 2
  then have "fs w (output_path e name) \<noteq> None" by (auto simp add: path_exists_present)
  then have "calls (spec_delta e w (name, prompt)) =
          Exists (output_path e name) #
            (if fs w (output_path e name) = None
             then ImagesGenerate (gen_request prompt) # [] else []) \<and>
        list_all (tail_call (output_path e name)) []"
    using 2 by (simp add: spec_delta_present)
  then show ?thesis by (rule exI)
next
  case 3
  then have absent: "fs w (output_path e name) = None" by (simp add: path_exists_absent)
  define w0 where "w0 = py_print (gen_line name) (record_call (Exists (output_path e name)) blank)"
  obtain cs where cs: "calls (snd (try_body e name prompt w0)) =
          calls w0 @ ImagesGenerate (gen_request prompt) # cs"
     "list_all (tail_call (output_path e name)) cs"
    using try_body_calls [of e name prompt w0] by blast
  obtain r w' where t: "try_body e name prompt w0 = (r, w')"
    by (cases "try_body e name prompt w0")
  have b: "path_exists (output_path e name) blank = Inr False" by simp
  have "calls (snd (generate_texture e name prompt blank)) = calls w'"
    unfolding generate_texture_absent [OF b] w0_def [symmetric] t
    by (simp split: sum.splits exc.splits)
  also have "\<dots> = Exists (output_path e name) # ImagesGenerate (gen_request prompt) # cs"
    using cs(1) unfolding t by (simp add: w0_def)
  finally show ?thesis using absent cs(2) 3 by (simp add: spec_delta_absent)
qed

lemma is_exists_tail: "list_all (tail_call p) cs \<Longrightarrow> filter is_exists cs = []"
  by (induction cs) (auto simp add: tail_call_def is_exists_def split: call.splits)

lemma spec_delta_exists:
  "filter is_exists (calls (spec_delta e w (name, prompt))) = [Exists (output_path e name)]"
  using spec_delta_calls [of e w name prompt]
  by (auto simp add: is_exists_tail)

lemma spec_delta_requested:
  "fs w (output_path e name) = None \<Longrightarrow>
   ImagesGenerate (gen_request prompt) \<in> set (calls (spec_delta e w (name, prompt)))"
  using spec_delta_calls [of e w name prompt] by auto

lemma spec_delta_call_cases:
  assumes "c \<in> set (calls (spec_delta e w (name, prompt)))"
  shows "c = Exists (output_path e name) \<or>
         fs w (output_path e name) = None \<and>
           (c = ImagesGenerate (gen_request prompt) \<or> tail_call (output_path e name) c)"
proof -
  obtain cs where cs: "calls (spec_delta e w (name, prompt)) =
          Exists (output_path e name) #
            (if fs w (output_path e name) = None
             then ImagesGenerate (gen_request prompt) # cs else [])"
     "list_all (tail_call (output_path e name)) cs"
    using spec_delta_calls [of e w name prompt] by blast
  show ?thesis
    using assms cs(2) unfolding cs(1)
    by (auto simp add: list_all_iff split: if_splits)
qed

lemma exists_batch:
  "filter is_exists (calls (batch_delta e w specs)) =
   map (\<lambda>s. Exists (output_path e (fst s))) specs"
proof (induction specs)
  case Nil
  then show ?case by simp
next
  case (Cons s specs)
  obtain name prompt where s: "s = (name, prompt)" by (cases s)
  show ?case unfolding batch_delta_Cons by (simp add: Cons.IH) (simp add: s spec_delta_exists)
qed

lemma batch_call_cases:
  assumes "c \<in> set (calls (batch_delta e w specs))"
  shows "\<exists>name prompt. (name, prompt) \<in> set specs \<and>
           c \<in> set (calls (spec_delta e w (name, prompt)))"
  using assms by (auto simp add: calls_batch)

lemma batch_call_intro:
  "(name, prompt) \<in> set specs \<Longrightarrow> c \<in> set (calls (spec_delta e w (name, prompt))) \<Longrightarrow>
   c \<in> set (calls (batch_delta e w specs))"
  by (force simp add: calls_batch)

lemma batch_line_intro:
  "(name, prompt) \<in> set specs \<Longrightarrow> l \<in> set (stdout (spec_delta e w (name, prompt))) \<Longrightarrow>
   l \<in> set (stdout (batch_delta e w specs))"
  by (force simp add: stdout_batch)

text \<open>
  A path that is occupied at the start is left alone by whatever specs are processed:
  no request carries the prompt of its spec, and no call writes to it.
\<close>

lemma occupied_path_no_calls:
  assumes sub: "set specs \<subseteq> set TEXTURES"
    and mem: "(name, prompt) \<in> set TEXTURES"
    and occ: "fs w (output_path e name) \<noteq> None"
    and c: "c = ImagesGenerate (gen_request prompt) \<or> writes_to (output_path e name) c"
  shows "c \<notin> set (calls (batch_delta e w specs))"
proof
  assume "c \<in> set (calls (batch_delta e w specs))"
  then obtain n p where np: "(n, p) \<in> set specs"
    and cin: "c \<in> set (calls (spec_delta e w (n, p)))"
    using batch_call_cases by blast
  from spec_delta_call_cases [OF cin] c
  have absent: "fs w (output_path e n) = None"
    and cc: "c = ImagesGenerate (gen_request p) \<or> tail_call (output_path e n) c"
    by auto
  have "n = name"
  proof (cases "c = ImagesGenerate (gen_request prompt)")
    case True
    with cc have "p = prompt" by simp
    with np sub mem show ?thesis using prompt_determines_name by blast
  next
    case False
    with c have wr: "writes_to (output_path e name) c" by simp
    with cc have "tail_call (output_path e n) c" by auto
    from tail_call_writes_to [OF this wr] show ?thesis by simp
  qed
  with absent occ show False by simp
qed

lemma outcomes_banner [simp]: "outcomes (banner e) = []"
  by (simp add: banner_def classify_def)

lemma classify_closing [simp]:
  "classify [] = None" "classify (summary_line k) = None" "classify retry_line = None"
  by (simp_all add: classify_def summary_line_def retry_line_def)

subsection \<open>Whole runs\<close>

lemma main_returned_iff:
  "(fst (main e w) = Returned) =
   (truthy (environ e ''OPENAI_API_KEY'') \<and> mkdir_error e = None \<and> client_error e = None \<and>
    (\<forall>s\<in>set TEXTURES. \<not> isl (spec_res e w s)))"
proof (cases "truthy (environ e ''OPENAI_API_KEY'')")
  case False
  then show ?thesis by (simp add: main_no_key)
next
  case key: True
  show ?thesis
  proof (cases "mkdir_error e")
    case (Some x)
    then show ?thesis by (simp add: main_mkdir_raises [OF key Some])
  next
    case mk: None
    show ?thesis
    proof (cases "client_error e")
      case (Some x)
      then show ?thesis by (simp add: main_client_raises [OF key mk Some])
    next
      case cl: None
      show ?thesis
      proof (cases "batch_res e w TEXTURES 0")
        case (Inl x)
        from batch_res_Inl [OF Inl] have "\<exists>s\<in>set TEXTURES. isl (spec_res e w s)" by force
        then show ?thesis by (auto simp add: main_loop [OF key mk cl] Inl)
      next
        case (Inr k)
        from batch_res_Inr [OF Inr] show ?thesis
          by (simp add: main_loop [OF key mk cl] Inr key mk cl)
      qed
    qed
  qed
qed

lemma main_run:
  assumes "fst (main e w) = Returned"
  shows "main e w =
    (Returned,
     (if batch_ok_count e w < length TEXTURES then py_print retry_line else id)
       (py_print (summary_line (batch_ok_count e w))
         (py_print '''' (graft (loop_start e w) (batch_delta e w TEXTURES)))))"
proof -
  from assms have key: "truthy (environ e ''OPENAI_API_KEY'')" and mk: "mkdir_error e = None"
    and cl: "client_error e = None" and all: "\<And>s. s \<in> set TEXTURES \<Longrightarrow> \<not> isl (spec_res e w s)"
    by (simp_all add: main_returned_iff)
  have "batch_res e w TEXTURES 0 = Inr (batch_ok_count e w)"
    using batch_res_all [of TEXTURES e w 0, OF all] by (simp add: batch_ok_count_def)
  then show ?thesis by (simp add: main_loop [OF key mk cl])
qed

lemma main_stdout:
  assumes "fst (main e w) = Returned"
  shows "new_stdout w (snd (main e w)) =
     banner e @ stdout (batch_delta e w TEXTURES) @
     ['''', summary_line (batch_ok_count e w)] @
     (if batch_ok_count e w < length TEXTURES then [retry_line] else [])"
  by (rule new_stdout_append) (simp add: main_run [OF assms])

lemma main_calls:
  assumes "fst (main e w) = Returned"
  shows "new_calls w (snd (main e w)) =
     Mkdir (OUTPUT_DIR e) # NewClient (str_val (environ e ''OPENAI_API_KEY'')) #
     calls (batch_delta e w TEXTURES)"
  by (rule new_calls_append) (simp add: main_run [OF assms])

lemma main_fs:
  assumes "fst (main e w) = Returned"
  shows "fs (snd (main e w)) = make_dirs (OUTPUT_DIR e) (fs w) ++ fs (batch_delta e w TEXTURES)"
  by (simp add: main_run [OF assms])

lemma main_all_return:
  "fst (main e w) = Returned \<Longrightarrow> s \<in> set TEXTURES \<Longrightarrow> \<not> isl (spec_res e w s)"
  by (simp add: main_returned_iff)

lemma main_outcomes:
  assumes "fst (main e w) = Returned"
  shows "outcomes (new_stdout w (snd (main e w))) = map (spec_outcome e w) TEXTURES"
  using outcomes_batch [of TEXTURES e w, OF main_all_return [OF assms]]
  by (simp add: main_stdout [OF assms])

lemma batch_ok_count_outcomes:
  assumes "fst (main e w) = Returned"
  shows "batch_ok_count e w =
     length (filter (\<lambda>c. c \<noteq> Failed) (map (spec_outcome e w) TEXTURES))"
proof -
  have "filter (spec_ok e w) TEXTURES = filter (\<lambda>s. spec_outcome e w s \<noteq> Failed) TEXTURES"
    by (rule filter_cong [OF refl]) (rule spec_ok_outcome [OF main_all_return [OF assms]])
  then show ?thesis
    by (simp add: batch_ok_count_def filter_map o_def)
qed

lemma main_fs_at:
  assumes "fst (main e w) = Returned" and "(name, prompt) \<in> set TEXTURES"
  shows "fs (snd (main e w)) (output_path e name) =
     (case fs (spec_delta e w (name, prompt)) (output_path e name) of
        None \<Rightarrow> fs w (output_path e name) | Some v \<Rightarrow> Some v)"
  by (simp add: main_fs [OF assms(1)] map_add_def
      fs_batch_at [OF TEXTURES_names_distinct assms(2)] split: option.splits)

text \<open>
  Every run, also one that an exception ends: its world is the starting world, the
  start-up calls and lines, and the difference of the specs that were processed.
\<close>

lemma main_any:
  "\<exists>specs pre ls1 ls2. set specs \<subseteq> set TEXTURES \<and> specs = take (length specs) TEXTURES \<and>
     (fst (main e w) = Returned \<longrightarrow> specs = TEXTURES) \<and>
     (\<forall>q. fs w q \<noteq> None \<longrightarrow> fs (snd (main e w)) q = fs w q) \<and>
     new_calls w (snd (main e w)) = pre @ calls (batch_delta e w specs) \<and>
     set pre \<subseteq> {Mkdir (OUTPUT_DIR e), NewClient (str_val (environ e ''OPENAI_API_KEY''))} \<and>
     new_stdout w (snd (main e w)) = ls1 @ stdout (batch_delta e w specs) @ ls2 \<and>
     outcomes ls1 = [] \<and> outcomes ls2 = []"
proof -
  let ?P = "\<lambda>specs pre ls1 ls2. set specs \<subseteq> set TEXTURES \<and> specs = take (length specs) TEXTURES \<and>
     (fst (main e w) = Returned \<longrightarrow> specs = TEXTURES) \<and>
     (\<forall>q. fs w q \<noteq> None \<longrightarrow> fs (snd (main e w)) q = fs w q) \<and>
     new_calls w (snd (main e w)) = pre @ calls (batch_delta e w specs) \<and>
     set pre \<subseteq> {Mkdir (OUTPUT_DIR e), NewClient (str_val (environ e ''OPENAI_API_KEY''))} \<and>
     new_stdout w (snd (main e w)) = ls1 @ stdout (batch_delta e w specs) @ ls2 \<and>
     outcomes ls1 = [] \<and> outcomes ls2 = []"
  let ?pre = "[Mkdir (OUTPUT_DIR e), NewClient (str_val (environ e ''OPENAI_API_KEY''))]"
  have keep: "make_dirs (OUTPUT_DIR e) (fs w) q = fs w q" if "fs w q \<noteq> None" for q
    using that by (auto simp add: make_dirs_def)
  have keep2: "(make_dirs (OUTPUT_DIR e) (fs w) ++ fs (batch_delta e w specs)) q = fs w q"
    if "fs w q \<noteq> None" for q specs
    using fs_batch_occupied [OF that, of e specs] keep [OF that] by (simp add: map_add_def)
  show ?thesis
  proof (cases "truthy (environ e ''OPENAI_API_KEY'')")
    case False
    have "?P [] [] key_error_lines []"
      by (simp add: main_no_key [OF False] new_calls_def new_stdout_def)
         (simp add: key_error_lines_def classify_def)
    then show ?thesis by blast
  next
    case key: True
    show ?thesis
    proof (cases "mkdir_error e")
      case (Some x)
      have "?P [] [Mkdir (OUTPUT_DIR e)] [] []"
        by (simp add: main_mkdir_raises [OF key Some] new_calls_def new_stdout_def)
      then show ?thesis by blast
    next
      case mk: None
      show ?thesis
      proof (cases "client_error e")
        case (Some x)
        have "?P [] ?pre (banner e) []"
          by (simp add: main_client_raises [OF key mk Some] new_calls_def new_stdout_def keep)
        then show ?thesis by blast
      next
        case cl: None
        show ?thesis
        proof (cases "batch_res e w TEXTURES 0")
          case (Inl x)
          have m: "main e w =
              (Uncaught x, graft (loop_start e w) (batch_delta e w (processed e w TEXTURES)))"
            by (simp add: main_loop [OF key mk cl] Inl)
          have "?P (processed e w TEXTURES) ?pre (banner e) []"
            using processed_subset [of e w TEXTURES] processed_prefix [of e w TEXTURES]
            by (simp add: m new_calls_def new_stdout_def keep2)
          then show ?thesis by blast
        next
          case (Inr k)
          have "?P TEXTURES ?pre (banner e)
              (['''', summary_line k] @ (if k < length TEXTURES then [retry_line] else []))"
            by (simp add: main_loop [OF key mk cl] Inr new_calls_def new_stdout_def keep2)
          then show ?thesis by blast
        qed
      qed
    qed
  qed
qed

text \<open>Whatever specs are processed, a path that exists is answered with its skip line.\<close>

lemma processed_present_skip:
  assumes "path_exists (output_path e name) w = Inr True"
    and "Exists (output_path e name) \<in> set (calls (batch_delta e w specs))"
  shows "skip_line name \<in> set (stdout (batch_delta e w specs))"
proof -
  from assms(2) have "Exists (output_path e name) \<in>
      set (filter is_exists (calls (batch_delta e w specs)))"
    by simp
  then obtain s where s: "s \<in> set specs" "fst s = name"
    unfolding exists_batch by auto
  obtain prompt where p: "s = (name, prompt)" using s(2) by (cases s) simp
  have "skip_line name \<in> set (stdout (spec_delta e w (name, prompt)))"
    by (simp add: spec_delta_present [OF assms(1)])
  with s(1) show ?thesis unfolding p by (rule batch_line_intro)
qed

text \<open>
  In every run, a path of the table that is occupied at the start keeps what it holds,
  no request carries the prompt of its spec, and no call writes to it.
\<close>

lemma occupied_path_untouched:
  assumes mem: "(name, prompt) \<in> set TEXTURES"
    and occ: "fs w (output_path e name) = Some nd"
  shows "fs (snd (main e w)) (output_path e name) = Some nd"
    and "c = ImagesGenerate (gen_request prompt) \<or> writes_to (output_path e name) c \<Longrightarrow>
         c \<notin> set (new_calls w (snd (main e w)))"
proof -
  obtain specs pre ls1 ls2 where sub: "set specs \<subseteq> set TEXTURES"
    and keep: "\<forall>q. fs w q \<noteq> None \<longrightarrow> fs (snd (main e w)) q = fs w q"
    and cs: "new_calls w (snd (main e w)) = pre @ calls (batch_delta e w specs)"
    and pre: "set pre \<subseteq> {Mkdir (OUTPUT_DIR e), NewClient (str_val (environ e ''OPENAI_API_KEY''))}"
    using main_any [of e w] by blast
  from occ have o: "fs w (output_path e name) \<noteq> None" by simp
  from keep o occ show "fs (snd (main e w)) (output_path e name) = Some nd" by simp
  assume c: "c = ImagesGenerate (gen_request prompt) \<or> writes_to (output_path e name) c"
  then have "c \<notin> set pre" using pre by auto
  with occupied_path_no_calls [OF sub mem o c] show "c \<notin> set (new_calls w (snd (main e w)))"
    unfolding cs by simp
qed

lemma present_reached_skip:
  assumes "path_exists (output_path e name) w = Inr True"
    and "Exists (output_path e name) \<in> set (new_calls w (snd (main e w)))"
  shows "skip_line name \<in> set (new_stdout w (snd (main e w)))"
proof -
  obtain specs pre ls1 ls2 where
        cs: "new_calls w (snd (main e w)) = pre @ calls (batch_delta e w specs)"
    and pre: "set pre \<subseteq> {Mkdir (OUTPUT_DIR e), NewClient (str_val (environ e ''OPENAI_API_KEY''))}"
    and ls: "new_stdout w (snd (main e w)) = ls1 @ stdout (batch_delta e w specs) @ ls2"
    using main_any [of e w] by blast
  have "Exists (output_path e name) \<notin> set pre" using pre by auto
  with assms(2) have "Exists (output_path e name) \<in> set (calls (batch_delta e w specs))"
    unfolding cs by simp
  from processed_present_skip [OF assms(1) this] show ?thesis unfolding ls by simp
qed

subsection \<open>The summary\<close>

lemma try_body_tagged:
  "list_all tagged (stdout w) \<Longrightarrow> list_all tagged (stdout (snd (try_body e name prompt w)))"
  by (simp add: try_body_def Let_def tagged_def
      split: sum.splits option.splits list.splits attr.splits prod.splits)

lemma spec_delta_tagged: "list_all tagged (stdout (spec_delta e w (name, prompt)))"
proof (cases rule: path_exists_cases [of "output_path e name" w])
  case (1 x)
  then show ?thesis by (simp add: spec_delta_inaccessible)
next
  case 2
  then show ?thesis by (simp add: spec_delta_present tagged_def skip_line_def)
next
  case 3
  define w0 where "w0 = py_print (gen_line name) (record_call (Exists (output_path e name)) blank)"
  have "list_all tagged (stdout w0)" by (simp add: w0_def tagged_def gen_line_def)
  then have t: "list_all tagged (stdout (snd (try_body e name prompt w0)))"
    by (rule try_body_tagged)
  obtain r w' where tb: "try_body e name prompt w0 = (r, w')"
    by (cases "try_body e name prompt w0")
  have b: "path_exists (output_path e name) blank = Inr False" by simp
  have "list_all tagged (stdout (snd (generate_texture e name prompt blank)))"
    using t unfolding generate_texture_absent [OF b] w0_def [symmetric] tb
    by (simp add: tagged_def failed_line_def split: sum.splits exc.splits)
  then show ?thesis using 3 by (simp add: spec_delta_absent)
qed

lemma batch_tagged: "list_all tagged (stdout (batch_delta e w specs))"
proof (induction specs)
  case Nil
  then show ?case by simp
next
  case (Cons s specs)
  obtain name prompt where s: "s = (name, prompt)" by (cases s)
  show ?case unfolding batch_delta_Cons using Cons.IH by (simp add: s spec_delta_tagged)
qed

lemma retry_not_in_batch: "retry_line \<notin> set (stdout (batch_delta e w specs))"
  using batch_tagged [of e w specs]
  by (auto simp add: list_all_iff tagged_def retry_line_def)

lemma retry_not_in_banner: "retry_line \<notin> set (banner e)"
  by (simp add: banner_def retry_line_def)

lemma retry_not_summary: "retry_line \<noteq> summary_line k" "retry_line \<noteq> []"
  by (simp_all add: retry_line_def summary_line_def)

lemma str_nat_digits: "str_nat 8 = ''8''" "str_nat 7 = ''7''"
  by (simp_all add: str_nat.simps)

lemma summary_line_eq:
  "summary_line k = ''Complete! Generated '' @ str_nat k @ ''/8 textures''"
  by (simp add: summary_line_def TEXTURES_length str_nat_digits)

lemma spec_res_alone:
  "spec_res e w = (\<lambda>s. fst (generate_texture e (fst s) (snd s) w))"
  by (rule ext) (simp add: spec_res_def case_prod_beta)

lemma batch_ok_count_alone:
  "batch_ok_count e w =
   length (filter (\<lambda>s. fst (generate_texture e (fst s) (snd s) w) = Inr True) TEXTURES)"
proof -
  have "spec_ok e w = (\<lambda>s. fst (generate_texture e (fst s) (snd s) w) = Inr True)"
    by (rule ext) (simp add: spec_ok_def spec_res_alone)
  then show ?thesis by (simp add: batch_ok_count_def)
qed

lemma main_returned_alone:
  "(fst (main e w) = Returned) =
   (truthy (environ e ''OPENAI_API_KEY'') \<and> mkdir_error e = None \<and> client_error e = None \<and>
    (\<forall>s\<in>set TEXTURES. \<exists>b. fst (generate_texture e (fst s) (snd s) w) = Inr b))"
proof -
  have "(\<not> isl (spec_res e w s)) = (\<exists>b. fst (generate_texture e (fst s) (snd s) w) = Inr b)"
    for s
    by (cases "spec_res e w s") (simp_all add: spec_res_alone)
  then show ?thesis by (simp add: main_returned_iff)
qed

lemma url_service_ok_saved:
  assumes "url_service_ok e name prompt" and "fs w (output_path e name) = None"
  shows "spec_res e w (name, prompt) = Inr True"
    and "\<exists>b. fs (spec_delta e w (name, prompt)) (output_path e name) = Some (File b)"
proof -
  from assms(1) obtain r img rest b where
    a: "images_generate e (gen_request prompt) = Inr r" "data r = Some (img # rest)"
       "truthy (url img)" "urlretrieve e (str_val (url img)) (output_path e name) = Inr b"
    by (auto simp add: url_service_ok_def split: sum.splits option.splits list.splits)
  have b0: "fs blank (output_path e name) = None" by simp
  from assms(2) have pe: "path_exists (output_path e name) w = Inr False"
    by (simp add: path_exists_absent)
  show "spec_res e w (name, prompt) = Inr True"
    by (simp add: spec_res_def generate_texture_url_saved [OF assms(2) a])
  show "\<exists>b. fs (spec_delta e w (name, prompt)) (output_path e name) = Some (File b)"
    by (simp add: spec_delta_absent [OF pe] generate_texture_url_saved [OF b0 a])
qed

lemma all_ok_return:
  assumes ok: "\<forall>s\<in>set TEXTURES. url_service_ok e (fst s) (snd s)"
    and acc: "\<forall>s\<in>set TEXTURES. \<forall>x. fs w (output_path e (fst s)) \<noteq> Some (Inaccessible x)"
    and mem: "s \<in> set TEXTURES"
  shows "spec_res e w s = Inr True"
proof -
  obtain name prompt where s: "s = (name, prompt)" by (cases s)
  show ?thesis
  proof (cases rule: path_exists_cases [of "output_path e name" w])
    case (1 x)
    with acc mem show ?thesis by (auto simp add: path_exists_raises s)
  next
    case 2
    then show ?thesis by (simp add: s spec_res_cases)
  next
    case 3
    then have a: "fs w (output_path e name) = None" by (simp add: path_exists_absent)
    from ok mem have "url_service_ok e name prompt" by (auto simp add: s)
    from url_service_ok_saved(1) [OF this a] show ?thesis by (simp add: s)
  qed
qed

lemma all_ok_files:
  assumes ret: "fst (main e w) = Returned"
    and ok: "\<forall>s\<in>set TEXTURES. url_service_ok e (fst s) (snd s)"
    and mem: "s \<in> set TEXTURES"
  shows "path_exists (output_path e (fst s)) (snd (main e w)) = Inr True"
proof -
  obtain name prompt where s: "s = (name, prompt)" by (cases s)
  from mem have m: "(name, prompt) \<in> set TEXTURES" by (simp add: s)
  from main_all_return [OF ret mem] have nr: "\<not> isl (spec_res e w (name, prompt))"
    by (simp add: s)
  show ?thesis
  proof (cases rule: path_exists_cases [of "output_path e name" w])
    case (1 x)
    with nr show ?thesis by (simp add: spec_res_cases)
  next
    case 2
    then have "fs w (output_path e name) \<noteq> None" by (auto simp add: path_exists_present)
    then have "fs (spec_delta e w (name, prompt)) (output_path e name) = None"
      by (simp add: spec_delta_occupied)
    then have "fs (snd (main e w)) (output_path e name) = fs w (output_path e name)"
      by (simp add: main_fs_at [OF ret m])
    then have "path_exists (output_path e name) (snd (main e w)) =
        path_exists (output_path e name) w"
      by (rule path_exists_cong)
    with 2 show ?thesis by (simp add: s)
  next
    case 3
    then have a: "fs w (output_path e name) = None" by (simp add: path_exists_absent)
    from ok mem have "url_service_ok e name prompt" by (auto simp add: s)
    from url_service_ok_saved(2) [OF this a] obtain b where
      "fs (spec_delta e w (name, prompt)) (output_path e name) = Some (File b)" by blast
    then have "fs (snd (main e w)) (output_path e name) = Some (File b)"
      by (simp add: main_fs_at [OF ret m])
    then show ?thesis by (simp add: s path_exists_def)
  qed
qed

lemma all_ok_created:
  assumes ret: "fst (main e w) = Returned"
    and ok: "\<forall>s\<in>set TEXTURES. url_service_ok e (fst s) (snd s)"
    and acc: "\<forall>s\<in>set TEXTURES. \<forall>x. fs w (output_path e (fst s)) \<noteq> Some (Inaccessible x)"
  shows "length (created_specs e w (snd (main e w))) + length (present_specs e w) = 8"
proof -
  have "(path_exists (output_path e (fst s)) w = Inr False) =
      (\<not> path_exists (output_path e (fst s)) w = Inr True)" if "s \<in> set TEXTURES" for s
    using acc that
    by (cases rule: path_exists_cases [of "output_path e (fst s)" w])
       (auto simp add: path_exists_raises)
  then have "created_specs e w (snd (main e w)) =
      filter (\<lambda>s. \<not> path_exists (output_path e (fst s)) w = Inr True) TEXTURES"
    unfolding created_specs_def
    by (intro filter_cong [OF refl]) (use all_ok_files [OF ret ok] in auto)
  then show ?thesis
    unfolding present_specs_def
    using sum_length_filter_compl
      [of "\<lambda>s. path_exists (output_path e (fst s)) w = Inr True" TEXTURES]
    by (simp add: TEXTURES_length)
qed

lemma skipped_count:
  "length (filter (\<lambda>r. r = AlreadyPresent) (map (spec_outcome e w) TEXTURES)) =
   length (present_specs e w)"
proof -
  have "(\<lambda>s. spec_outcome e w s = AlreadyPresent) =
      (\<lambda>s. path_exists (output_path e (fst s)) w = Inr True)"
    by (rule ext) (simp add: spec_outcome_def)
  then show ?thesis by (simp add: filter_map o_def present_specs_def)
qed

lemma one_failure_count:
  assumes ret: "fst (main e w) = Returned"
    and one: "length (filter (\<lambda>s. fst (generate_texture e (fst s) (snd s) w) = Inr False)
                TEXTURES) = 1"
  shows "batch_ok_count e w = 7"
proof -
  have "(fst (generate_texture e (fst s) (snd s) w) = Inr False) =
      (\<not> fst (generate_texture e (fst s) (snd s) w) = Inr True)" if "s \<in> set TEXTURES" for s
    using main_all_return [OF ret that]
    by (cases "spec_res e w s") (auto simp add: spec_res_alone)
  then have "filter (\<lambda>s. fst (generate_texture e (fst s) (snd s) w) = Inr False) TEXTURES =
      filter (\<lambda>s. \<not> fst (generate_texture e (fst s) (snd s) w) = Inr True) TEXTURES"
    by (intro filter_cong [OF refl])
  with one show ?thesis
    using sum_length_filter_compl
      [of "\<lambda>s. fst (generate_texture e (fst s) (snd s) w) = Inr True" TEXTURES]
    by (simp add: batch_ok_count_alone TEXTURES_length)
qed

subsection \<open>What one call adds\<close>

lemma generate_texture_new:
  "new_stdout w (snd (generate_texture e name prompt w)) = stdout (spec_delta e w (name, prompt))"
  "new_calls w (snd (generate_texture e name prompt w)) = calls (spec_delta e w (name, prompt))"
  "fst (generate_texture e name prompt w) = spec_res e w (name, prompt)"
  by (simp_all add: generate_texture_graft)

lemma caughtI:
  assumes "generate_texture e name prompt w = (Inr False, w')"
    and "stdout w' = stdout w @ [gen_line name, failed_line name x]"
  shows "caught e name prompt w x"
proof -
  have "new_stdout w (snd (generate_texture e name prompt w)) = [gen_line name, failed_line name x]"
    by (rule new_stdout_append) (simp add: assms)
  then show ?thesis
    unfolding caught_def by (simp add: assms(1)) (simp add: gen_line_def failed_line_def)
qed

lemma generate_texture_raises_iff:
  "(fst (generate_texture e name prompt w) = Inl y) =
   (fs w (output_path e name) = Some (Inaccessible y) \<or>
    fs w (output_path e name) = None \<and>
    (\<exists>c. fst (try_body e name prompt
                (py_print (gen_line name) (record_call (Exists (output_path e name)) w))) =
          Inl (Unprintable c y)))"
proof (cases rule: path_exists_cases [of "output_path e name" w])
  case (1 x)
  then show ?thesis
    by (auto simp add: generate_texture_inaccessible path_exists_raises)
next
  case 2
  then show ?thesis
    by (auto simp add: generate_texture_present path_exists_present)
next
  case 3
  then have a: "fs w (output_path e name) = None" by (simp add: path_exists_absent)
  show ?thesis
    unfolding generate_texture_absent [OF 3]
    by (auto simp add: a split: prod.splits sum.splits exc.splits)
qed

lemma url_branch_calls:
  assumes "fs w (output_path e name) = None"
    and "images_generate e (gen_request prompt) = Inr r"
    and "data r = Some (img # rest)"
    and "truthy (url img)"
  shows "new_calls w (snd (generate_texture e name prompt w)) =
           [Exists (output_path e name), ImagesGenerate (gen_request prompt),
            UrlRetrieve (str_val (url img)) (output_path e name)]"
proof -
  have "calls (snd (generate_texture e name prompt w)) =
          calls w @ [Exists (output_path e name), ImagesGenerate (gen_request prompt),
            UrlRetrieve (str_val (url img)) (output_path e name)]"
    using assms by (simp add: absent_defs split: sum.splits prod.splits exc.splits)
  then show ?thesis by (rule new_calls_append)
qed

subsection \<open>Runs on the example machines\<close>

lemma all_ok_main_returned:
  assumes "truthy (environ e ''OPENAI_API_KEY'')" and "mkdir_error e = None"
    and "client_error e = None"
    and "\<forall>s\<in>set TEXTURES. url_service_ok e (fst s) (snd s)"
    and "\<forall>s\<in>set TEXTURES. \<forall>x. fs w (output_path e (fst s)) \<noteq> Some (Inaccessible x)"
  shows "fst (main e w) = Returned"
  unfolding main_returned_iff
  using assms(1-3) all_ok_return [OF assms(4,5)] by simp

lemma demo_env_simps [simp]:
  "truthy (environ demo_env ''OPENAI_API_KEY'')" "mkdir_error demo_env = None"
  "client_error demo_env = None" "openai_installed demo_env"
  "url_service_ok demo_env name prompt"
  by (simp_all add: demo_env_def truthy_def url_service_ok_def)

lemma demo_worlds_accessible [simp]:
  "fs blank p \<noteq> Some (Inaccessible x)"
  "fs demo_world p \<noteq> Some (Inaccessible x)"
  "fs three_files_world p \<noteq> Some (Inaccessible x)"
  by (simp_all add: demo_world_def three_files_world_def)

lemma demo_returns:
  "fst (main demo_env blank) = Returned"
  "fst (main demo_env demo_world) = Returned"
  "fst (main demo_env three_files_world) = Returned"
  by (rule all_ok_main_returned; simp)+

lemma failing_env_simps [simp]:
  "truthy (environ failing_env ''OPENAI_API_KEY'')" "mkdir_error failing_env = None"
  "client_error failing_env = None" "openai_installed failing_env"
  by (simp_all add: failing_env_def demo_env_def truthy_def)

lemma failing_env_result:
  "fst (generate_texture failing_env name prompt blank) = Inr (prompt \<noteq> snd (TEXTURES ! 2))"
  by (simp add: absent_defs failing_env_def demo_env_def gen_request_def truthy_def)

lemma failing_env_returns: "fst (main failing_env blank) = Returned"
  unfolding main_returned_alone by (simp add: failing_env_result)

lemma failing_env_one_failure:
  "length (filter (\<lambda>s. fst (generate_texture failing_env (fst s) (snd s) blank) = Inr False)
     TEXTURES) = 1"
  unfolding failing_env_result by (simp add: TEXTURES_def)

lemma unprintable_env_simps [simp]:
  "truthy (environ unprintable_env ''OPENAI_API_KEY'')" "mkdir_error unprintable_env = None"
  "client_error unprintable_env = None" "openai_installed unprintable_env"
  by (simp_all add: unprintable_env_def demo_env_def truthy_def)

lemma unprintable_env_result:
  "spec_res unprintable_env blank =
     (\<lambda>s. if snd s = snd (TEXTURES ! 2)
          then Inl (Exception ''UnicodeEncodeError'' ''codec cannot encode character'')
          else Inr True)"
  unfolding spec_res_alone
  by (rule ext)
     (simp add: absent_defs unprintable_env_def demo_env_def gen_request_def truthy_def)

lemma unprintable_env_run:
  "main unprintable_env blank =
     (Uncaught (Exception ''UnicodeEncodeError'' ''codec cannot encode character''),
      graft (loop_start unprintable_env blank)
        (batch_delta unprintable_env blank (take 3 TEXTURES)))"
proof -
  have r: "batch_res unprintable_env blank TEXTURES 0 =
      Inl (Exception ''UnicodeEncodeError'' ''codec cannot encode character'')"
    by (simp add: TEXTURES_def unprintable_env_result)
  have p: "processed unprintable_env blank TEXTURES = take 3 TEXTURES"
    by (simp add: TEXTURES_def unprintable_env_result)
  show ?thesis
    by (simp add: main_loop r p del: processed.simps batch_res.simps)
qed

lemma no_client_env_run:
  "main no_client_env blank =
     (Uncaught (Exception ''OpenAIError'' ''client could not be created''),
      loop_start no_client_env blank)"
  by (rule main_client_raises) (simp_all add: no_client_env_def demo_env_def truthy_def)

lemma absent_specs_requested:
  assumes "fst (main e w) = Returned" and "(n, p) \<in> set TEXTURES"
    and "fs w (output_path e n) = None"
  shows "ImagesGenerate (gen_request p) \<in> set (new_calls w (snd (main e w)))"
  using batch_call_intro [OF assms(2) spec_delta_requested [OF assms(3)]]
  by (simp add: main_calls [OF assms(1)])

lemma requests_of_batch:
  assumes "ImagesGenerate (gen_request p) \<in> set (calls (batch_delta e w specs))"
  shows "p \<in> snd ` set specs"
proof -
  from batch_call_cases [OF assms] obtain name prompt where
    m: "(name, prompt) \<in> set specs"
    and c: "ImagesGenerate (gen_request p) \<in> set (calls (spec_delta e w (name, prompt)))"
    by blast
  from spec_delta_call_cases [OF c] have "p = prompt" by simp
  with m show ?thesis by force
qed

lemma concat_singletons:
  "(\<And>s. s \<in> set xs \<Longrightarrow> f s = [g s]) \<Longrightarrow> concat (map f xs) = map g xs"
  by (induction xs) simp_all

section \<open>The claims\<close>

subsection \<open>The credential check\<close>

text \<open>
  Claim C4. If the credential variable is unset, the program prints the configuration
  error with the remedy and stops with exit status 1, having made no outside call at all:
  no network request, no generation attempt, no directory created, no file touched. For
  the whole script this holds whether or not the import guard fires first; when it does,
  the line printed is the guard's.
\<close>

theorem missing_credential_is_fatal:
  assumes "environ e ''OPENAI_API_KEY'' = None"
  shows "main e w = (SystemExit 1, print_all key_error_lines w) \<and>
         new_stdout w (snd (main e w)) = key_error_lines \<and>
         new_calls w (snd (main e w)) = [] \<and>
         fs (snd (main e w)) = fs w \<and>
         fst (script e w) = 1 \<and>
         new_stdout w (snd (script e w)) =
           (if openai_installed e then key_error_lines else [import_error_line]) \<and>
         new_calls w (snd (script e w)) = [] \<and>
         fs (snd (script e w)) = fs w"
proof -
  have m: "main e w = (SystemExit 1, print_all key_error_lines w)"
    using assms by (simp add: main_def truthy_def)
  show ?thesis
    by (simp add: m script_def exit_status_def)
qed

theorem missing_credential_is_fatal_witness:
  "environ (demo_env\<lparr>environ := (\<lambda>v. None)\<rparr>) ''OPENAI_API_KEY'' = None \<and>
   fst (script (demo_env\<lparr>environ := (\<lambda>v. None)\<rparr>) blank) = 1 \<and>
   new_calls blank (snd (script (demo_env\<lparr>environ := (\<lambda>v. None)\<rparr>) blank)) = [] \<and>
   stdout (snd (main (demo_env\<lparr>environ := (\<lambda>v. None)\<rparr>) blank)) = key_error_lines"
  using missing_credential_is_fatal [of "demo_env\<lparr>environ := (\<lambda>v. None)\<rparr>" blank]
  by simp

text \<open>
  Claim C10. A credential variable that is set to the empty string is treated exactly
  like an unset one: \<open>main\<close> and the script give the same result in both environments,
  which is the configuration error, exit status 1 and no outside call.
\<close>

theorem empty_credential_like_unset:
  "main (e\<lparr>environ := (environ e)(''OPENAI_API_KEY'' \<mapsto> [])\<rparr>) w =
     main (e\<lparr>environ := (environ e)(''OPENAI_API_KEY'' := None)\<rparr>) w \<and>
   script (e\<lparr>environ := (environ e)(''OPENAI_API_KEY'' \<mapsto> [])\<rparr>) w =
     script (e\<lparr>environ := (environ e)(''OPENAI_API_KEY'' := None)\<rparr>) w \<and>
   main (e\<lparr>environ := (environ e)(''OPENAI_API_KEY'' \<mapsto> [])\<rparr>) w =
     (SystemExit 1, print_all key_error_lines w) \<and>
   fst (script (e\<lparr>environ := (environ e)(''OPENAI_API_KEY'' \<mapsto> [])\<rparr>) w) = 1 \<and>
   new_calls w (snd (script (e\<lparr>environ := (environ e)(''OPENAI_API_KEY'' \<mapsto> [])\<rparr>) w)) = [] \<and>
   fs (snd (script (e\<lparr>environ := (environ e)(''OPENAI_API_KEY'' \<mapsto> [])\<rparr>) w)) = fs w"
  by (simp add: main_def script_def truthy_def exit_status_def)


subsection \<open>The response of the service\<close>

text \<open>
  Claim C5 says that every response that contains neither a URL nor inline data is
  recorded as failed with the explicit "no image data" error. A response whose list of
  images is empty contains neither, but it has no first image to look at:
  \<open>response.data[0]\<close> raises inside the \<open>try\<close> block, and the line printed is the general
  failure line with the text of the \<open>IndexError\<close>, not the "no image data" error.
\<close>

theorem no_image_data_counterexample:
  "images_generate empty_data_env (gen_request ''a wall'') = Inr \<lparr>data = Some []\<rparr> \<and>
   fs blank (output_path empty_data_env ''ritual_wall'') = None \<and>
   fst (generate_texture empty_data_env ''ritual_wall'' ''a wall'' blank) = Inr False \<and>
   new_stdout blank (snd (generate_texture empty_data_env ''ritual_wall'' ''a wall'' blank)) =
     [''  [GEN] ritual_wall...'',
      ''  [ERR] Failed to generate ritual_wall: list index out of range''] \<and>
   ''  [ERR] No image data in response'' \<notin>
     set (new_stdout blank (snd (generate_texture empty_data_env ''ritual_wall'' ''a wall'' blank)))"
proof -
  have a: "images_generate empty_data_env (gen_request ''a wall'') = Inr \<lparr>data = Some []\<rparr>"
    by (simp add: empty_data_env_def)
  have b: "fs blank (output_path empty_data_env ''ritual_wall'') = None" by simp
  have g: "generate_texture empty_data_env ''ritual_wall'' ''a wall'' blank =
     (Inr False,
      py_print (failed_line ''ritual_wall'' (Exception ''IndexError'' ''list index out of range''))
        (requested empty_data_env ''ritual_wall'' ''a wall'' blank))"
    by (rule generate_texture_empty_data [OF b a]) simp
  have l: "stdout (snd (generate_texture empty_data_env ''ritual_wall'' ''a wall'' blank)) =
      stdout blank @ [''  [GEN] ritual_wall...'',
        ''  [ERR] Failed to generate ritual_wall: list index out of range'']"
    by (simp add: g line_defs)
  show ?thesis
    unfolding new_stdout_append [OF l] using a b by (simp add: g)
qed

text \<open>
  Claim C5, amended. When the file is absent and the first image of the response carries
  neither a URL (it is \<open>None\<close> or empty) nor inline data (the attribute is missing, \<open>None\<close>
  or empty), the call returns \<open>False\<close>, the line printed after the progress line is the
  "No image data in response" error, the outcome it reports is failed, the only outside
  calls were the existence check and the request, and the file system is unchanged:
  nothing is written at the output path. When the response holds no image at all (its
  list of images is empty or \<open>None\<close>), the spec is recorded as failed as well, with the
  same calls and no file written, but the line printed is the general failure line with
  the text of the exception raised by \<open>response.data[0]\<close>.
\<close>

theorem no_image_data_fails:
  assumes "fs w (output_path e name) = None"
    and "images_generate e (gen_request prompt) = Inr r"
  shows "(\<forall>img rest. data r = Some (img # rest) \<and> \<not> truthy (url img) \<and>
            (b64_json img = NoAttr \<or> b64_json img = NoneVal \<or> b64_json img = StrVal []) \<longrightarrow>
            fst (generate_texture e name prompt w) = Inr False \<and>
            new_stdout w (snd (generate_texture e name prompt w)) =
              [gen_line name, ''  [ERR] No image data in response''] \<and>
            outcomes (new_stdout w (snd (generate_texture e name prompt w))) = [Failed] \<and>
            new_calls w (snd (generate_texture e name prompt w)) =
              [Exists (output_path e name), ImagesGenerate (gen_request prompt)] \<and>
            fs (snd (generate_texture e name prompt w)) = fs w \<and>
            fs (snd (generate_texture e name prompt w)) (output_path e name) = None) \<and>
         (data r = Some [] \<longrightarrow>
            fst (generate_texture e name prompt w) = Inr False \<and>
            new_stdout w (snd (generate_texture e name prompt w)) =
              [gen_line name,
               ''  [ERR] Failed to generate '' @ name @ '': list index out of range''] \<and>
            outcomes (new_stdout w (snd (generate_texture e name prompt w))) = [Failed] \<and>
            new_calls w (snd (generate_texture e name prompt w)) =
              [Exists (output_path e name), ImagesGenerate (gen_request prompt)] \<and>
            fs (snd (generate_texture e name prompt w)) = fs w \<and>
            fs (snd (generate_texture e name prompt w)) (output_path e name) = None) \<and>
         (data r = None \<longrightarrow>
            fst (generate_texture e name prompt w) = Inr False \<and>
            new_stdout w (snd (generate_texture e name prompt w)) =
              [gen_line name,
               ''  [ERR] Failed to generate '' @ name @ '': '' @
                 CHR 0x27 # ''NoneType'' @ CHR 0x27 # '' object is not subscriptable''] \<and>
            outcomes (new_stdout w (snd (generate_texture e name prompt w))) = [Failed] \<and>
            new_calls w (snd (generate_texture e name prompt w)) =
              [Exists (output_path e name), ImagesGenerate (gen_request prompt)] \<and>
            fs (snd (generate_texture e name prompt w)) = fs w \<and>
            fs (snd (generate_texture e name prompt w)) (output_path e name) = None)"
proof (intro conjI impI allI)
  fix img rest
  assume h: "data r = Some (img # rest) \<and> \<not> truthy (url img) \<and>
            (b64_json img = NoAttr \<or> b64_json img = NoneVal \<or> b64_json img = StrVal [])"
  have g: "generate_texture e name prompt w =
      (Inr False, py_print no_image_line (requested e name prompt w))"
    by (rule generate_texture_no_image [OF assms conjunct1 [OF h]
          conjunct1 [OF conjunct2 [OF h]] conjunct2 [OF conjunct2 [OF h]]])
  have l: "stdout (snd (generate_texture e name prompt w)) =
      stdout w @ [gen_line name, ''  [ERR] No image data in response'']"
    by (simp add: g no_image_line_def)
  have c: "calls (snd (generate_texture e name prompt w)) =
      calls w @ [Exists (output_path e name), ImagesGenerate (gen_request prompt)]"
    by (simp add: g)
  show "fst (generate_texture e name prompt w) = Inr False" by (simp add: g)
  show "new_stdout w (snd (generate_texture e name prompt w)) =
              [gen_line name, ''  [ERR] No image data in response'']"
    by (rule new_stdout_append [OF l])
  have "outcomes (new_stdout w (snd (generate_texture e name prompt w))) =
      outcomes [gen_line name, no_image_line]"
    unfolding new_stdout_append [OF l] by (simp only: no_image_line_def)
  then show "outcomes (new_stdout w (snd (generate_texture e name prompt w))) = [Failed]"
    by simp
  show "new_calls w (snd (generate_texture e name prompt w)) =
              [Exists (output_path e name), ImagesGenerate (gen_request prompt)]"
    by (rule new_calls_append [OF c])
  show "fs (snd (generate_texture e name prompt w)) = fs w" by (simp add: g)
  show "fs (snd (generate_texture e name prompt w)) (output_path e name) = None"
    using assms(1) by (simp add: g)
next
  assume h: "data r = Some []"
  let ?x = "Exception ''IndexError'' ''list index out of range''"
  have g: "generate_texture e name prompt w =
      (Inr False, py_print (failed_line name ?x) (requested e name prompt w))"
    by (rule generate_texture_empty_data [OF assms h])
  have l: "stdout (snd (generate_texture e name prompt w)) =
      stdout w @ [gen_line name,
        ''  [ERR] Failed to generate '' @ name @ '': list index out of range'']"
    by (simp add: g failed_line_def)
  have c: "calls (snd (generate_texture e name prompt w)) =
      calls w @ [Exists (output_path e name), ImagesGenerate (gen_request prompt)]"
    by (simp add: g)
  show "fst (generate_texture e name prompt w) = Inr False" by (simp add: g)
  show "new_stdout w (snd (generate_texture e name prompt w)) =
              [gen_line name,
               ''  [ERR] Failed to generate '' @ name @ '': list index out of range'']"
    by (rule new_stdout_append [OF l])
  have "stdout (snd (generate_texture e name prompt w)) =
      stdout w @ [gen_line name, failed_line name ?x]"
    by (simp add: g)
  then show "outcomes (new_stdout w (snd (generate_texture e name prompt w))) = [Failed]"
    by (simp only: new_stdout_append) simp
  show "new_calls w (snd (generate_texture e name prompt w)) =
              [Exists (output_path e name), ImagesGenerate (gen_request prompt)]"
    by (rule new_calls_append [OF c])
  show "fs (snd (generate_texture e name prompt w)) = fs w" by (simp add: g)
  show "fs (snd (generate_texture e name prompt w)) (output_path e name) = None"
    using assms(1) by (simp add: g)
next
  assume h: "data r = None"
  let ?x = "Exception ''TypeError''
          (CHR 0x27 # ''NoneType'' @ CHR 0x27 # '' object is not subscriptable'')"
  have g: "generate_texture e name prompt w =
      (Inr False, py_print (failed_line name ?x) (requested e name prompt w))"
    by (rule generate_texture_none_data [OF assms h])
  have l: "stdout (snd (generate_texture e name prompt w)) =
      stdout w @ [gen_line name,
               ''  [ERR] Failed to generate '' @ name @ '': '' @
                 CHR 0x27 # ''NoneType'' @ CHR 0x27 # '' object is not subscriptable'']"
    by (simp add: g failed_line_def)
  have c: "calls (snd (generate_texture e name prompt w)) =
      calls w @ [Exists (output_path e name), ImagesGenerate (gen_request prompt)]"
    by (simp add: g)
  show "fst (generate_texture e name prompt w) = Inr False" by (simp add: g)
  show "new_stdout w (snd (generate_texture e name prompt w)) =
              [gen_line name,
               ''  [ERR] Failed to generate '' @ name @ '': '' @
                 CHR 0x27 # ''NoneType'' @ CHR 0x27 # '' object is not subscriptable'']"
    by (rule new_stdout_append [OF l])
  have "stdout (snd (generate_texture e name prompt w)) =
      stdout w @ [gen_line name, failed_line name ?x]"
    by (simp add: g)
  then show "outcomes (new_stdout w (snd (generate_texture e name prompt w))) = [Failed]"
    by (simp only: new_stdout_append) simp
  show "new_calls w (snd (generate_texture e name prompt w)) =
              [Exists (output_path e name), ImagesGenerate (gen_request prompt)]"
    by (rule new_calls_append [OF c])
  show "fs (snd (generate_texture e name prompt w)) = fs w" by (simp add: g)
  show "fs (snd (generate_texture e name prompt w)) (output_path e name) = None"
    using assms(1) by (simp add: g)
qed

theorem no_image_data_fails_witness:
  "fs blank (output_path no_image_env ''ritual_wall'') = None \<and>
   fst (generate_texture no_image_env ''ritual_wall'' ''a wall'' blank) = Inr False \<and>
   new_stdout blank (snd (generate_texture no_image_env ''ritual_wall'' ''a wall'' blank)) =
     [gen_line ''ritual_wall'', ''  [ERR] No image data in response''] \<and>
   outcomes (new_stdout blank (snd (generate_texture no_image_env ''ritual_wall'' ''a wall'' blank)))
     = [Failed] \<and>
   fs (snd (generate_texture no_image_env ''ritual_wall'' ''a wall'' blank))
     (output_path no_image_env ''ritual_wall'') = None"
proof -
  let ?img = "\<lparr>url = None, b64_json = NoneVal\<rparr>"
  have h1: "fs blank (output_path no_image_env ''ritual_wall'') = None" by simp
  have h2: "images_generate no_image_env (gen_request ''a wall'') = Inr \<lparr>data = Some [?img]\<rparr>"
    by (simp add: no_image_env_def)
  have h3: "data \<lparr>data = Some [?img]\<rparr> = Some (?img # []) \<and> \<not> truthy (url ?img) \<and>
      (b64_json ?img = NoAttr \<or> b64_json ?img = NoneVal \<or> b64_json ?img = StrVal [])"
    by (simp add: truthy_def)
  from no_image_data_fails [OF h1 h2] h3 h1 show ?thesis by blast
qed


text \<open>
  Claim C6. The URL form is preferred. When the response carries a URL and the download
  succeeds, the file at the output path holds the downloaded bytes and the spec is
  saved. Whenever a URL is present the calls are the existence check, the request and
  the download, never a decode or a write of inline data, and replacing the inline
  attribute of the response by any other value changes nothing. Only when no URL is
  present are the inline bytes decoded and written, and then the file holds the decoded
  bytes.
\<close>

theorem url_preferred_over_inline:
  assumes "fs w (output_path e name) = None"
    and "images_generate e (gen_request prompt) = Inr r"
    and "data r = Some (img # rest)"
  shows "(truthy (url img) \<and> urlretrieve e (str_val (url img)) (output_path e name) = Inr b \<longrightarrow>
            fst (generate_texture e name prompt w) = Inr True \<and>
            fs (snd (generate_texture e name prompt w)) (output_path e name) = Some (File b) \<and>
            outcomes (new_stdout w (snd (generate_texture e name prompt w))) = [Saved]) \<and>
         (truthy (url img) \<longrightarrow>
            new_calls w (snd (generate_texture e name prompt w)) =
              [Exists (output_path e name), ImagesGenerate (gen_request prompt),
               UrlRetrieve (str_val (url img)) (output_path e name)] \<and>
            (\<forall>a. generate_texture
                   (e\<lparr>images_generate :=
                        (images_generate e)(gen_request prompt :=
                           Inr (r\<lparr>data := Some (img\<lparr>b64_json := a\<rparr> # rest)\<rparr>))\<rparr>)
                   name prompt w =
                 generate_texture e name prompt w)) \<and>
         (\<not> truthy (url img) \<and> b64_json img = StrVal s \<and> s \<noteq> [] \<and>
          b64decode e s = Inr d \<and> file_write e (output_path e name) d = None \<longrightarrow>
            fst (generate_texture e name prompt w) = Inr True \<and>
            fs (snd (generate_texture e name prompt w)) (output_path e name) = Some (File d) \<and>
            outcomes (new_stdout w (snd (generate_texture e name prompt w))) = [Saved] \<and>
            new_calls w (snd (generate_texture e name prompt w)) =
              [Exists (output_path e name), ImagesGenerate (gen_request prompt),
               B64Decode s, FileWrite (output_path e name) d])"
proof (intro conjI impI allI)
  assume h: "truthy (url img) \<and> urlretrieve e (str_val (url img)) (output_path e name) = Inr b"
  note g = generate_texture_url_saved [OF assms conjunct1 [OF h] conjunct2 [OF h]]
  show "fst (generate_texture e name prompt w) = Inr True" by (simp add: g)
  show "fs (snd (generate_texture e name prompt w)) (output_path e name) = Some (File b)"
    by (simp add: g)
  have "stdout (snd (generate_texture e name prompt w)) = stdout w @ [gen_line name, ok_line name]"
    by (simp add: g)
  then show "outcomes (new_stdout w (snd (generate_texture e name prompt w))) = [Saved]"
    by (simp only: new_stdout_append) simp
next
  assume h: "truthy (url img)"
  show "new_calls w (snd (generate_texture e name prompt w)) =
          [Exists (output_path e name), ImagesGenerate (gen_request prompt),
           UrlRetrieve (str_val (url img)) (output_path e name)]"
    by (rule url_branch_calls [OF assms h])
  show "generate_texture
          (e\<lparr>images_generate :=
               (images_generate e)(gen_request prompt :=
                  Inr (r\<lparr>data := Some (img\<lparr>b64_json := a\<rparr> # rest)\<rparr>))\<rparr>)
          name prompt w =
        generate_texture e name prompt w" for a
    by (rule generate_texture_ignores_inline [OF assms(2,3) h])
next
  assume h: "\<not> truthy (url img) \<and> b64_json img = StrVal s \<and> s \<noteq> [] \<and>
          b64decode e s = Inr d \<and> file_write e (output_path e name) d = None"
  then have g: "generate_texture e name prompt w =
     (Inr True, py_print (ok_line name) (write_node (output_path e name) d
        (record_call (FileWrite (output_path e name) d)
          (record_call (B64Decode s) (requested e name prompt w)))))"
    by (intro generate_texture_b64_saved [OF assms]) simp_all
  show "fst (generate_texture e name prompt w) = Inr True" by (simp add: g)
  show "fs (snd (generate_texture e name prompt w)) (output_path e name) = Some (File d)"
    by (simp add: g)
  have "stdout (snd (generate_texture e name prompt w)) = stdout w @ [gen_line name, ok_line name]"
    by (simp add: g)
  then show "outcomes (new_stdout w (snd (generate_texture e name prompt w))) = [Saved]"
    by (simp only: new_stdout_append) simp
  show "new_calls w (snd (generate_texture e name prompt w)) =
              [Exists (output_path e name), ImagesGenerate (gen_request prompt),
               B64Decode s, FileWrite (output_path e name) d]"
    by (rule new_calls_append) (simp add: g)
qed

theorem url_preferred_over_inline_witness:
  "fst (generate_texture demo_env ''ritual_wall'' ''a wall'' blank) = Inr True \<and>
   fs (snd (generate_texture demo_env ''ritual_wall'' ''a wall'' blank))
     (output_path demo_env ''ritual_wall'') = Some (File ''PNG-bytes'') \<and>
   new_calls blank (snd (generate_texture demo_env ''ritual_wall'' ''a wall'' blank)) =
     [Exists (output_path demo_env ''ritual_wall''), ImagesGenerate (gen_request ''a wall''),
      UrlRetrieve ''https://cdn.example/img'' (output_path demo_env ''ritual_wall'')] \<and>
   fst (generate_texture inline_env ''ritual_wall'' ''a wall'' blank) = Inr True \<and>
   fs (snd (generate_texture inline_env ''ritual_wall'' ''a wall'' blank))
     (output_path inline_env ''ritual_wall'') = Some (File ''hi'')"
proof -
  let ?u = "\<lparr>url = Some ''https://cdn.example/img'', b64_json = NoneVal\<rparr>"
  let ?i = "\<lparr>url = None, b64_json = StrVal ''aGk=''\<rparr>"
  have a1: "fs blank (output_path demo_env ''ritual_wall'') = None" by simp
  have a2: "images_generate demo_env (gen_request ''a wall'') = Inr \<lparr>data = Some [?u]\<rparr>"
    by (simp add: demo_env_def)
  have a3: "data \<lparr>data = Some [?u]\<rparr> = Some (?u # [])" by simp
  have a4: "truthy (url ?u) \<and>
      urlretrieve demo_env (str_val (url ?u)) (output_path demo_env ''ritual_wall'') = Inr ''PNG-bytes''"
    by (simp add: truthy_def demo_env_def)
  have a5: "str_val (url ?u) = ''https://cdn.example/img''" by (simp add: str_val_def)
  have b1: "fs blank (output_path inline_env ''ritual_wall'') = None" by simp
  have b2: "images_generate inline_env (gen_request ''a wall'') = Inr \<lparr>data = Some [?i]\<rparr>"
    by (simp add: inline_env_def)
  have b3: "data \<lparr>data = Some [?i]\<rparr> = Some (?i # [])" by simp
  have b4: "\<not> truthy (url ?i) \<and> b64_json ?i = StrVal ''aGk='' \<and> ''aGk='' \<noteq> [] \<and>
      b64decode inline_env ''aGk='' = Inr ''hi'' \<and>
      file_write inline_env (output_path inline_env ''ritual_wall'') ''hi'' = None"
    by (simp add: truthy_def inline_env_def demo_env_def)
  from url_preferred_over_inline [OF a1 a2 a3, of "''PNG-bytes''"] a4 a5
       url_preferred_over_inline [OF b1 b2 b3, of _ "''aGk=''" "''hi''"] b4
  show ?thesis by metis
qed




subsection \<open>Files that are already there\<close>

text \<open>
  Claim C1. When the output path of a spec exists at the moment the spec is processed
  (\<open>output_path.exists()\<close> answers \<open>True\<close>), \<open>generate_texture\<close> returns \<open>True\<close> after
  printing the skip notice; its only outside call is the existence check, and the file
  system is unchanged. For a spec of the table whose output path exists at the start,
  this carries over to every run of \<open>main\<close>, also one that an exception ends early: what
  is stored at the path is the same afterwards, no generation request with its prompt is
  sent, no download or write targets its path, and if the run gets to the spec (its
  existence check is among the calls) its skip notice is printed. A run that returns
  gets to every spec, and the outcome it reports for this one is already-present. A
  second run therefore leaves every file of the first alone.
\<close>

theorem existing_file_is_skipped:
  assumes present: "path_exists (output_path e name) w = Inr True"
  shows "generate_texture e name prompt w =
           (Inr True, py_print (''  [SKIP] '' @ name @ ''.png already exists'')
                    (record_call (Exists (output_path e name)) w)) \<and>
         outcomes (new_stdout w (snd (generate_texture e name prompt w))) = [AlreadyPresent] \<and>
         new_calls w (snd (generate_texture e name prompt w)) = [Exists (output_path e name)] \<and>
         fs (snd (generate_texture e name prompt w)) = fs w \<and>
         ((name, prompt) \<in> set TEXTURES \<longrightarrow>
            fs (snd (main e w)) (output_path e name) = fs w (output_path e name) \<and>
            ImagesGenerate (gen_request prompt) \<notin> set (new_calls w (snd (main e w))) \<and>
            (\<forall>u. UrlRetrieve u (output_path e name) \<notin> set (new_calls w (snd (main e w)))) \<and>
            (\<forall>b. FileWrite (output_path e name) b \<notin> set (new_calls w (snd (main e w)))) \<and>
            (Exists (output_path e name) \<in> set (new_calls w (snd (main e w))) \<longrightarrow>
               ''  [SKIP] '' @ name @ ''.png already exists'' \<in>
                 set (new_stdout w (snd (main e w))))) \<and>
         (fst (main e w) = Returned \<and> i < length TEXTURES \<and> TEXTURES ! i = (name, prompt) \<longrightarrow>
            Exists (output_path e name) \<in> set (new_calls w (snd (main e w))) \<and>
            outcomes (new_stdout w (snd (main e w))) ! i = AlreadyPresent \<and>
            ''  [SKIP] '' @ name @ ''.png already exists'' \<in> set (new_stdout w (snd (main e w))))"
proof (intro conjI impI)
  note g = generate_texture_present [OF present, of prompt]
  show "generate_texture e name prompt w =
           (Inr True, py_print (''  [SKIP] '' @ name @ ''.png already exists'')
                    (record_call (Exists (output_path e name)) w))"
    unfolding g by (simp add: skip_line_def)
  have "stdout (snd (generate_texture e name prompt w)) = stdout w @ [skip_line name]"
    by (simp add: g)
  then show "outcomes (new_stdout w (snd (generate_texture e name prompt w))) = [AlreadyPresent]"
    by (simp only: new_stdout_append) simp
  show "new_calls w (snd (generate_texture e name prompt w)) = [Exists (output_path e name)]"
    by (rule new_calls_append) (simp add: g)
  show "fs (snd (generate_texture e name prompt w)) = fs w"
    by (simp add: g)
next
  assume mem: "(name, prompt) \<in> set TEXTURES"
  from present obtain nd where occ: "fs w (output_path e name) = Some nd"
    by (auto simp add: path_exists_present)
  note u = occupied_path_untouched [OF mem occ]
  show "fs (snd (main e w)) (output_path e name) = fs w (output_path e name)"
    by (simp add: u(1) occ)
  show "ImagesGenerate (gen_request prompt) \<notin> set (new_calls w (snd (main e w)))"
    by (rule u(2)) simp
  show "\<forall>u. UrlRetrieve u (output_path e name) \<notin> set (new_calls w (snd (main e w)))"
    by (intro allI u(2)) simp
  show "\<forall>b. FileWrite (output_path e name) b \<notin> set (new_calls w (snd (main e w)))"
    by (intro allI u(2)) simp
  assume "Exists (output_path e name) \<in> set (new_calls w (snd (main e w)))"
  from present_reached_skip [OF present this]
  show "''  [SKIP] '' @ name @ ''.png already exists'' \<in> set (new_stdout w (snd (main e w)))"
    by (simp add: skip_line_def)
next
  assume h: "fst (main e w) = Returned \<and> i < length TEXTURES \<and> TEXTURES ! i = (name, prompt)"
  then have ret: "fst (main e w) = Returned" and i: "i < length TEXTURES"
    and s: "TEXTURES ! i = (name, prompt)"
    by simp_all
  from i s have mem: "(name, prompt) \<in> set TEXTURES" by (metis nth_mem)
  have "Exists (output_path e name) \<in> set (calls (spec_delta e w (name, prompt)))"
    by (simp add: spec_delta_present [OF present])
  with mem have "Exists (output_path e name) \<in> set (calls (batch_delta e w TEXTURES))"
    by (rule batch_call_intro)
  then show r: "Exists (output_path e name) \<in> set (new_calls w (snd (main e w)))"
    by (simp add: main_calls [OF ret])
  show "outcomes (new_stdout w (snd (main e w))) ! i = AlreadyPresent"
    using present i by (simp add: main_outcomes [OF ret] s spec_outcome_def)
  from present_reached_skip [OF present r]
  show "''  [SKIP] '' @ name @ ''.png already exists'' \<in> set (new_stdout w (snd (main e w)))"
    by (simp add: skip_line_def)
qed

theorem existing_file_is_skipped_witness:
  "path_exists (output_path demo_env ''ritual_wall'') demo_world = Inr True \<and>
   TEXTURES ! 3 = (''ritual_wall'', snd (TEXTURES ! 3)) \<and>
   fst (main demo_env demo_world) = Returned \<and>
   outcomes (new_stdout demo_world (snd (main demo_env demo_world))) ! 3 = AlreadyPresent \<and>
   ''  [SKIP] ritual_wall.png already exists'' \<in>
     set (new_stdout demo_world (snd (main demo_env demo_world))) \<and>
   ImagesGenerate (gen_request (snd (TEXTURES ! 3))) \<notin>
     set (new_calls demo_world (snd (main demo_env demo_world))) \<and>
   fs (snd (main demo_env demo_world)) (output_path demo_env ''ritual_wall'') =
     Some (File ''old bytes'')"
proof -
  have a: "path_exists (output_path demo_env ''ritual_wall'') demo_world = Inr True"
    by (simp add: demo_world_def path_exists_def)
  have f: "fs demo_world (output_path demo_env ''ritual_wall'') = Some (File ''old bytes'')"
    by (simp add: demo_world_def)
  have b: "3 < length TEXTURES \<and> TEXTURES ! 3 = (''ritual_wall'', snd (TEXTURES ! 3))"
    by (simp add: TEXTURES_def)
  then have m: "(''ritual_wall'', snd (TEXTURES ! 3)) \<in> set TEXTURES"
    by (metis nth_mem)
  note r = demo_returns(2)
  have l: "''  [SKIP] '' @ ''ritual_wall'' @ ''.png already exists'' =
      ''  [SKIP] ritual_wall.png already exists''"
    by simp
  note t = existing_file_is_skipped [OF a, of "snd (TEXTURES ! 3)" 3]
  from t m have s1:
    "fs (snd (main demo_env demo_world)) (output_path demo_env ''ritual_wall'') =
       fs demo_world (output_path demo_env ''ritual_wall'')"
    and s2: "ImagesGenerate (gen_request (snd (TEXTURES ! 3))) \<notin>
       set (new_calls demo_world (snd (main demo_env demo_world)))"
    by blast+
  from t r b have s3:
    "outcomes (new_stdout demo_world (snd (main demo_env demo_world))) ! 3 = AlreadyPresent"
    and s4: "''  [SKIP] '' @ ''ritual_wall'' @ ''.png already exists'' \<in>
       set (new_stdout demo_world (snd (main demo_env demo_world)))"
    by blast+
  from a b r s3 s4 [unfolded l] s2 s1 [unfolded f] show ?thesis by blast
qed


subsection \<open>Failures of one spec\<close>





subsection \<open>The table and the outcomes\<close>

text \<open>
  Claim C7 says that every spec is processed exactly once and ends with exactly one
  outcome, so that no spec is dropped. The construction of the client stands between the
  banner and the loop, outside any \<open>try\<close>: when it raises, with the credential present
  and the directory made, the process ends before the loop, no spec is processed and no
  outcome is reported for any of the eight.
\<close>

theorem specs_dropped_counterexample:
  "truthy (environ no_client_env ''OPENAI_API_KEY'') \<and>
   mkdir_error no_client_env = None \<and>
   fst (main no_client_env blank) =
     Uncaught (Exception ''OpenAIError'' ''client could not be created'') \<and>
   new_calls blank (snd (main no_client_env blank)) =
     [Mkdir (OUTPUT_DIR no_client_env), NewClient ''sk-demo''] \<and>
   filter is_exists (new_calls blank (snd (main no_client_env blank))) = [] \<and>
   outcomes (new_stdout blank (snd (main no_client_env blank))) = []"
proof -
  have k: "truthy (environ no_client_env ''OPENAI_API_KEY'') \<and>
      mkdir_error no_client_env = None"
    by (simp add: no_client_env_def demo_env_def truthy_def)
  have c: "new_calls blank (snd (main no_client_env blank)) =
     [Mkdir (OUTPUT_DIR no_client_env), NewClient ''sk-demo'']"
    by (rule new_calls_append)
       (simp add: no_client_env_run, simp add: no_client_env_def demo_env_def str_val_def)
  have l: "new_stdout blank (snd (main no_client_env blank)) = banner no_client_env"
    by (rule new_stdout_append) (simp add: no_client_env_run)
  show ?thesis
    unfolding c l using k by (simp add: no_client_env_run)
qed

text \<open>
  Claim C7, amended. The table is a constant of eight pairs with distinct names; the loop
  iterates that constant, so nothing can change it during a run. Processing one spec
  makes exactly one existence check, and when it returns it has printed exactly one
  outcome line, which is already-present when the path exists, and otherwise saved or
  failed according to the boolean returned; when it raises it has printed none. In
  every run of \<open>main\<close> the specs that are processed are the first \<open>m\<close> of the table, once
  each and in the order of the table, and the outcomes printed are theirs. A run that
  returns has processed all eight: its outcomes are those of the eight specs in the
  order of the table, one each.
\<close>

theorem every_spec_has_one_outcome:
  "length TEXTURES = 8 \<and> distinct (map fst TEXTURES) \<and>
   filter is_exists (new_calls w (snd (generate_texture e name prompt w))) =
     [Exists (output_path e name)] \<and>
   outcomes (new_stdout w (snd (generate_texture e name prompt w))) =
     (case fst (generate_texture e name prompt w) of
        Inl x \<Rightarrow> []
      | Inr b \<Rightarrow>
          [if path_exists (output_path e name) w = Inr True then AlreadyPresent
           else if b then Saved else Failed]) \<and>
   (\<exists>m\<le>8.
      filter is_exists (new_calls w (snd (main e w))) =
        map (\<lambda>s. Exists (output_path e (fst s))) (take m TEXTURES) \<and>
      outcomes (new_stdout w (snd (main e w))) =
        concat (map (\<lambda>s. outcomes (new_stdout w (snd (generate_texture e (fst s) (snd s) w))))
          (take m TEXTURES)) \<and>
      (fst (main e w) = Returned \<longrightarrow> m = 8)) \<and>
   (fst (main e w) = Returned \<longrightarrow>
      filter is_exists (new_calls w (snd (main e w))) =
        map (\<lambda>s. Exists (output_path e (fst s))) TEXTURES \<and>
      outcomes (new_stdout w (snd (main e w))) =
        concat (map (\<lambda>s. outcomes (new_stdout w (snd (generate_texture e (fst s) (snd s) w))))
          TEXTURES) \<and>
      length (outcomes (new_stdout w (snd (main e w)))) = 8 \<and>
      (\<forall>s\<in>set TEXTURES.
         length (outcomes (new_stdout w (snd (generate_texture e (fst s) (snd s) w)))) = 1))"
proof -
  let ?o = "\<lambda>s. outcomes (new_stdout w (snd (generate_texture e (fst s) (snd s) w)))"
  have od: "?o = (\<lambda>s. outcomes (stdout (spec_delta e w s)))"
    by (rule ext) (simp add: generate_texture_new)
  have a: "filter is_exists (new_calls w (snd (generate_texture e name prompt w))) =
     [Exists (output_path e name)]"
    by (simp add: generate_texture_new spec_delta_exists)
  have "stdout (snd (generate_texture e name prompt w)) =
      stdout w @ stdout (spec_delta e w (name, prompt))"
    by (simp add: generate_texture_graft)
  then have "outcomes (stdout (spec_delta e w (name, prompt))) =
     (case fst (generate_texture e name prompt w) of
        Inl x \<Rightarrow> []
      | Inr b \<Rightarrow>
          [if path_exists (output_path e name) w = Inr True then AlreadyPresent
           else if b then Saved else Failed])"
    using generate_texture_outcomes [of e name prompt w] by simp
  then have b: "outcomes (new_stdout w (snd (generate_texture e name prompt w))) =
     (case fst (generate_texture e name prompt w) of
        Inl x \<Rightarrow> []
      | Inr b \<Rightarrow>
          [if path_exists (output_path e name) w = Inr True then AlreadyPresent
           else if b then Saved else Failed])"
    by (simp add: generate_texture_new)
  have c: "\<exists>m\<le>8.
      filter is_exists (new_calls w (snd (main e w))) =
        map (\<lambda>s. Exists (output_path e (fst s))) (take m TEXTURES) \<and>
      outcomes (new_stdout w (snd (main e w))) = concat (map ?o (take m TEXTURES)) \<and>
      (fst (main e w) = Returned \<longrightarrow> m = 8)"
  proof -
    obtain specs pre ls1 ls2 where
          pf: "specs = take (length specs) TEXTURES"
      and rt: "fst (main e w) = Returned \<longrightarrow> specs = TEXTURES"
      and cs: "new_calls w (snd (main e w)) = pre @ calls (batch_delta e w specs)"
      and pre: "set pre \<subseteq>
            {Mkdir (OUTPUT_DIR e), NewClient (str_val (environ e ''OPENAI_API_KEY''))}"
      and ls: "new_stdout w (snd (main e w)) = ls1 @ stdout (batch_delta e w specs) @ ls2"
      and o1: "outcomes ls1 = []" and o2: "outcomes ls2 = []"
      using main_any [of e w] by blast
    define m where "m = length specs"
    have sp: "specs = take m TEXTURES" unfolding m_def by (rule pf)
    have "length specs = min (length specs) (length TEXTURES)"
      using arg_cong [OF pf, of length] by simp
    then have m8: "m \<le> 8" unfolding m_def by (simp add: TEXTURES_length)
    have "filter is_exists pre = []"
      using pre by (auto simp add: filter_empty_conv)
    then have e1: "filter is_exists (new_calls w (snd (main e w))) =
        map (\<lambda>s. Exists (output_path e (fst s))) (take m TEXTURES)"
      unfolding cs by (simp add: exists_batch sp [symmetric])
    have e2: "outcomes (new_stdout w (snd (main e w))) = concat (map ?o (take m TEXTURES))"
      unfolding ls od by (simp add: o1 o2 outcomes_batch_gen sp [symmetric])
    have e3: "fst (main e w) = Returned \<longrightarrow> m = 8"
      using rt by (auto simp add: m_def TEXTURES_length)
    from m8 e1 e2 e3 show ?thesis by blast
  qed
  have d: "filter is_exists (new_calls w (snd (main e w))) =
        map (\<lambda>s. Exists (output_path e (fst s))) TEXTURES \<and>
      outcomes (new_stdout w (snd (main e w))) = concat (map ?o TEXTURES) \<and>
      length (outcomes (new_stdout w (snd (main e w)))) = 8 \<and>
      (\<forall>s\<in>set TEXTURES. length (?o s) = 1)"
    if ret: "fst (main e w) = Returned"
  proof -
    have one: "?o s = [spec_outcome e w s]" if "s \<in> set TEXTURES" for s
    proof -
      obtain n p where s: "s = (n, p)" by (cases s)
      from main_all_return [OF ret that] obtain b where "spec_res e w (n, p) = Inr b"
        unfolding s by (cases "spec_res e w (n, p)") simp_all
      then show ?thesis by (simp add: s generate_texture_new outcomes_spec_delta)
    qed
    have cc: "concat (map ?o TEXTURES) = map (spec_outcome e w) TEXTURES"
      by (rule concat_singletons) (rule one)
    show ?thesis
      unfolding cc
      by (simp add: main_calls [OF ret] exists_batch main_outcomes [OF ret] TEXTURES_length one)
  qed
  from d have d': "fst (main e w) = Returned \<longrightarrow>
      filter is_exists (new_calls w (snd (main e w))) =
        map (\<lambda>s. Exists (output_path e (fst s))) TEXTURES \<and>
      outcomes (new_stdout w (snd (main e w))) = concat (map ?o TEXTURES) \<and>
      length (outcomes (new_stdout w (snd (main e w)))) = 8 \<and>
      (\<forall>s\<in>set TEXTURES. length (?o s) = 1)"
    by (rule impI)
  show ?thesis
    by (intro conjI TEXTURES_length TEXTURES_names_distinct a b c d')
qed

theorem every_spec_has_one_outcome_witness:
  "fst (main demo_env demo_world) = Returned \<and>
   length (outcomes (new_stdout demo_world (snd (main demo_env demo_world)))) = 8 \<and>
   filter is_exists (new_calls demo_world (snd (main demo_env demo_world))) =
     map (\<lambda>s. Exists (output_path demo_env (fst s))) TEXTURES"
proof -
  note r = demo_returns(2)
  from every_spec_has_one_outcome [of demo_world demo_env] r
  show ?thesis by blast
qed



end
